theory Spec2Isabelle
  imports Complex_Main "HOL-Library.Sublist" "HOL-Library.Code_Target_Numeral"
begin

section \<open>Scope of the model\<close>

text \<open>
  This theory embeds the judging pipeline of the repository: the output normaliser and
  comparator of validation-utils, the comparator of output-validator.ts, the complexity
  classifier of code-analyzer.ts, and \<^verbatim>\<open>compileCode\<close>, \<^verbatim>\<open>executeTestCase\<close>,
  \<^verbatim>\<open>validateTestCases\<close>, \<^verbatim>\<open>executeCode\<close>, \<^verbatim>\<open>submitSolution\<close> and \<^verbatim>\<open>updateUserStatistics\<close> of
  code-execution-service.ts. Each source function is one definition of the same name.

  \<^item> A string is a list of 8-bit characters read as the code units U+0000 to U+00FF;
    texts with other characters are outside the model.
  \<^item> A number is an exact rational (type \<open>rat\<close>) or one of the two infinities. The
    source computes with IEEE doubles; the two agree wherever the double is exact, in
    particular on integers up to \<open>2\<^sup>5\<^sup>3\<close>. The plagiarism score is a fraction that no
    double holds exactly, so the model rounds it, the literal it is compared with and
    its product with 100 as the doubles do (\<open>round_to_double\<close>).
  \<^item> A function that can raise returns a value of type \<open>js_error + 'a\<close>; \<^verbatim>\<open>try { } catch\<close>
    is \<open>try_catch\<close>.
  \<^item> The database, the executor, the clock and the random generator are fields of a
    record \<open>env\<close>; the tables the judge writes (submissions,
    solutions, user statistics) and the log of executor calls are a record \<open>world\<close>
    that \<^verbatim>\<open>submitSolution\<close> takes and returns.
\<close>

section \<open>ECMAScript strings and numbers\<close>

text \<open>
  \<open>is_space\<close> is the class \<^verbatim>\<open>\\s\<close> of a regular expression, which is also what
  \<^verbatim>\<open>String.prototype.trim\<close> removes: TAB, LF, VT, FF, CR, SPACE and NBSP below U+0100.
  \<open>str_includes\<close> is \<^verbatim>\<open>String.prototype.includes\<close>, \<open>str_split\<close> is \<^verbatim>\<open>split\<close> at a one-character
  separator, \<open>toLowerCase_char\<close> lower-cases A-Z and the Latin-1 capitals, and \<open>dec\<close>
  writes a natural number in decimal digits.
\<close>

definition is_space :: "char \<Rightarrow> bool" where
  "is_space c = (of_char c \<in> {9, 10, 11, 12, 13, 32, 160 :: nat})"

definition is_digit :: "char \<Rightarrow> bool" where
  "is_digit c = (48 \<le> (of_char c :: nat) \<and> (of_char c :: nat) \<le> 57)"

definition trim :: "string \<Rightarrow> string" where
  "trim s = rev (dropWhile is_space (rev (dropWhile is_space s)))"

fun str_includes :: "string \<Rightarrow> string \<Rightarrow> bool" where
  "str_includes [] sub = (sub = [])"
| "str_includes (c # cs) sub = (prefix sub (c # cs) \<or> str_includes cs sub)"

definition toLowerCase_char :: "char \<Rightarrow> char" where
  "toLowerCase_char c =
     (let n = (of_char c :: nat)
      in if (65 \<le> n \<and> n \<le> 90) \<or> (192 \<le> n \<and> n \<le> 222 \<and> n \<noteq> 215)
         then char_of (n + 32) else c)"

fun dec :: "nat \<Rightarrow> string" where
  "dec n = (if n < 10 then [char_of (48 + n)] else dec (n div 10) @ [char_of (48 + n mod 10)])"

fun str_split :: "char \<Rightarrow> string \<Rightarrow> string list" where
  "str_split sep [] = [] # []"
| "str_split sep (c # cs) =
     (if c = sep then [] # str_split sep cs
      else (case str_split sep cs of [] \<Rightarrow> [c] # [] | p # ps \<Rightarrow> (c # p) # ps))"

subsection \<open>Numbers and Number.prototype.toString\<close>

text \<open>
  \<open>Number_toString\<close> follows the algorithm of the language standard: with \<open>ds\<close> the \<open>k\<close>
  significant digits of the value and \<open>n\<close> the position of the decimal point, the
  value is printed as an integer when \<open>k \<le> n \<le> 21\<close>, with a point inside when
  \<open>0 < n \<le> 21\<close>, with leading zeros when \<open>-6 < n \<le> 0\<close>, and in exponent notation
  otherwise. The first branch of \<open>Number_toString_pos\<close> is the integer case, written
  out on its own. \<open>frac_places\<close> counts the decimals of a terminating fraction; its
  first argument bounds the search (a denominator of \<open>d\<close> decimal digits has fewer
  than \<open>4 * d\<close> factors 2 or 5).
\<close>

datatype jsnum = MinusInfinity | Finite rat | PlusInfinity

definition digit_val :: "char \<Rightarrow> nat" where
  "digit_val c = of_char c - 48"

definition digits_val :: "string \<Rightarrow> nat" where
  "digits_val ds = foldl (\<lambda>acc c. 10 * acc + digit_val c) 0 ds"

definition pow10 :: "int \<Rightarrow> rat" where
  "pow10 e = (if 0 \<le> e then 10 ^ nat e else 1 / 10 ^ nat (- e))"

fun frac_places :: "nat \<Rightarrow> rat \<Rightarrow> nat" where
  "frac_places 0 x = 0"
| "frac_places (Suc n) x = (if of_int \<lfloor>x\<rfloor> = x then 0 else Suc (frac_places n (x * 10)))"

fun trailing_zeros :: "nat \<Rightarrow> nat" where
  "trailing_zeros m = (if m = 0 \<or> m mod 10 \<noteq> 0 then 0 else Suc (trailing_zeros (m div 10)))"

definition Number_toString_pos :: "rat \<Rightarrow> string" where
  "Number_toString_pos x =
     (if of_int \<lfloor>x\<rfloor> = x \<and> x < 10 ^ 21 then dec (nat \<lfloor>x\<rfloor>)
      else
        let j = frac_places (4 * length (dec (nat (snd (quotient_of x))))) x;
            m = nat \<lfloor>x * 10 ^ j\<rfloor>;
            z = trailing_zeros m;
            ds = dec (m div 10 ^ z);
            k = int (length ds);
            n = int z - int j + k
        in if k \<le> n \<and> n \<le> 21 then ds @ replicate (nat (n - k)) (CHR ''0'')
           else if 0 < n \<and> n \<le> 21 then take (nat n) ds @ ''.'' @ drop (nat n) ds
           else if - 6 < n \<and> n \<le> 0 then ''0.'' @ replicate (nat (- n)) (CHR ''0'') @ ds
           else (if k = 1 then ds else take 1 ds @ ''.'' @ drop 1 ds)
                @ ''e'' @ (if 0 \<le> n - 1 then ''+'' else ''-'') @ dec (nat \<bar>n - 1\<bar>))"

definition Number_toString :: "jsnum \<Rightarrow> string" where
  "Number_toString v =
     (case v of
        MinusInfinity \<Rightarrow> ''-Infinity''
      | PlusInfinity \<Rightarrow> ''Infinity''
      | Finite x \<Rightarrow>
          if x = 0 then ''0''
          else if x < 0 then ''-'' @ Number_toString_pos (- x)
          else Number_toString_pos x)"


subsection \<open>Number(text)\<close>

text \<open>
  \<open>Number s\<close> is the conversion \<^verbatim>\<open>Number(s)\<close> of a string, \<open>None\<close> standing for \<^verbatim>\<open>NaN\<close>: the
  trimmed text is empty (value 0), a hexadecimal, octal or binary integer literal, or an
  optionally signed decimal literal or \<^verbatim>\<open>Infinity\<close>.
\<close>


definition is_hex_digit :: "char \<Rightarrow> bool" where
  "is_hex_digit c =
     (is_digit c \<or> (let n = (of_char c :: nat) in (65 \<le> n \<and> n \<le> 70) \<or> (97 \<le> n \<and> n \<le> 102)))"

definition hex_digit_val :: "char \<Rightarrow> nat" where
  "hex_digit_val c =
     (let n = (of_char c :: nat)
      in if n \<le> 57 then n - 48 else if n \<le> 70 then n - 55 else n - 87)"

definition radix_val :: "nat \<Rightarrow> string \<Rightarrow> nat" where
  "radix_val b ds = foldl (\<lambda>acc c. b * acc + hex_digit_val c) 0 ds"

definition NonDecimalIntegerLiteral :: "string \<Rightarrow> nat option" where
  "NonDecimalIntegerLiteral t =
     (case t of
        z # x # d # ds \<Rightarrow>
          if z \<noteq> CHR ''0'' then None
          else if (x = CHR ''x'' \<or> x = CHR ''X'') \<and> list_all is_hex_digit (d # ds)
            then Some (radix_val 16 (d # ds))
          else if (x = CHR ''o'' \<or> x = CHR ''O'')
                  \<and> list_all (\<lambda>c. is_digit c \<and> hex_digit_val c < 8) (d # ds)
            then Some (radix_val 8 (d # ds))
          else if (x = CHR ''b'' \<or> x = CHR ''B'')
                  \<and> list_all (\<lambda>c. is_digit c \<and> hex_digit_val c < 2) (d # ds)
            then Some (radix_val 2 (d # ds))
          else None
      | _ \<Rightarrow> None)"

definition strip_sign :: "string \<Rightarrow> bool \<times> string" where
  "strip_sign s =
     (case s of
        [] \<Rightarrow> (False, [])
      | c # r \<Rightarrow> if c = CHR ''-'' then (True, r) else if c = CHR ''+'' then (False, r) else (False, s))"

definition ExponentPart :: "string \<Rightarrow> (int \<times> string) option" where
  "ExponentPart r =
     (case r of
        [] \<Rightarrow> Some (0, [])
      | e # r1 \<Rightarrow>
          if e = CHR ''e'' \<or> e = CHR ''E'' then
            (let (neg, r2) = strip_sign r1; ds = takeWhile is_digit r2
             in if ds = [] then None
                else Some (if neg then - int (digits_val ds) else int (digits_val ds),
                           dropWhile is_digit r2))
          else Some (0, r))"

definition StrUnsignedDecimalLiteral :: "string \<Rightarrow> rat option" where
  "StrUnsignedDecimalLiteral u =
     (let ip = takeWhile is_digit u; r1 = dropWhile is_digit u
      in if r1 \<noteq> [] \<and> hd r1 = CHR ''.'' then
           (let fp = takeWhile is_digit (tl r1); r2 = dropWhile is_digit (tl r1)
            in if ip = [] \<and> fp = [] then None
               else (case ExponentPart r2 of
                       Some (e, []) \<Rightarrow>
                         Some (of_nat (digits_val (ip @ fp)) * pow10 (e - int (length fp)))
                     | _ \<Rightarrow> None))
         else if ip = [] then None
         else (case ExponentPart r1 of
                 Some (e, []) \<Rightarrow> Some (of_nat (digits_val ip) * pow10 e)
               | _ \<Rightarrow> None))"

definition Number :: "string \<Rightarrow> jsnum option" where
  "Number s =
     (let t = trim s
      in if t = [] then Some (Finite 0)
         else (case NonDecimalIntegerLiteral t of
                 Some n \<Rightarrow> Some (Finite (of_nat n))
               | None \<Rightarrow>
                   (let (neg, u) = strip_sign t
                    in if u = ''Infinity'' then Some (if neg then MinusInfinity else PlusInfinity)
                       else map_option (\<lambda>x. Finite (if neg then - x else x))
                              (StrUnsignedDecimalLiteral u))))"

subsection \<open>JSON\<close>

text \<open>
  \<open>JSON_parse\<close> is a recursive-descent parser for the JSON grammar: the four JSON
  whitespace characters, the three literals, numbers without leading zeros, strings
  with their escapes, arrays and objects. An object keeps its members in the key order
  of the language (\<open>CreateDataProperty\<close>: integer keys first, ascending, then the other
  keys in insertion order; a repeated key keeps its place and takes the last value).
  The parser counts down a fuel argument that starts at the length of the text plus
  one; every recursive call follows at least one consumed character, and what any
  amount of fuel parses, this amount parses to the same value (\<open>json_fuel_suffices\<close>).
  \<open>None\<close> is the \<^verbatim>\<open>SyntaxError\<close>. \<open>JSON_stringify\<close> prints a value without spaces, as
  \<^verbatim>\<open>JSON.stringify\<close> with one argument does; an infinite number is printed \<^verbatim>\<open>null\<close>.
  An escape \<^verbatim>\<open>\\uXXXX\<close> above U+00FF leaves the alphabet of the model; the parser keeps
  its low byte.
\<close>


datatype json =
    JNull
  | JBool bool
  | JNum jsnum
  | JStr string
  | JArr "json list"
  | JObj "(string \<times> json) list"

definition is_json_ws :: "char \<Rightarrow> bool" where
  "is_json_ws c = (of_char c \<in> {9, 10, 13, 32 :: nat})"

definition skip_ws :: "string \<Rightarrow> string" where
  "skip_ws s = dropWhile is_json_ws s"

definition json_number :: "string \<Rightarrow> (rat \<times> string) option" where
  "json_number s =
     (let (neg, s1) = (if s \<noteq> [] \<and> hd s = CHR ''-'' then (True, tl s) else (False, s));
          ip = takeWhile is_digit s1; r1 = dropWhile is_digit s1
      in if ip = [] \<or> (hd ip = CHR ''0'' \<and> 1 < length ip) then None
         else
           (let frac = (if r1 \<noteq> [] \<and> hd r1 = CHR ''.''
                        then (let fp = takeWhile is_digit (tl r1)
                              in if fp = [] then None else Some (fp, dropWhile is_digit (tl r1)))
                        else Some ([], r1))
            in case frac of
                 None \<Rightarrow> None
               | Some (fp, r2) \<Rightarrow>
                   (case ExponentPart r2 of
                      None \<Rightarrow> None
                    | Some (e, r3) \<Rightarrow>
                        Some ((if neg then - 1 else 1) * of_nat (digits_val (ip @ fp))
                                * pow10 (e - int (length fp)), r3))))"

definition unescape :: "char \<Rightarrow> char option" where
  "unescape e =
     (if e = CHR 0x22 \<or> e = CHR 0x5C \<or> e = CHR ''/'' then Some e
      else if e = CHR ''b'' then Some (CHR 0x08)
      else if e = CHR ''f'' then Some (CHR 0x0C)
      else if e = CHR ''n'' then Some (CHR 0x0A)
      else if e = CHR ''r'' then Some (CHR 0x0D)
      else if e = CHR ''t'' then Some (CHR 0x09)
      else None)"

fun json_string :: "string \<Rightarrow> (string \<times> string) option" where
  "json_string [] = None"
| "json_string (c # r) =
     (if c = CHR 0x22 then Some ([], r)
      else if c = CHR 0x5C then
        (case r of
           [] \<Rightarrow> None
         | e # r1 \<Rightarrow>
             if e = CHR ''u'' then
               (case r1 of
                  h1 # h2 # h3 # h4 # r2 \<Rightarrow>
                    if list_all is_hex_digit [h1, h2, h3, h4]
                    then map_option (\<lambda>(str, rest). (char_of (radix_val 16 [h1, h2, h3, h4]) # str, rest))
                           (json_string r2)
                    else None
                | _ \<Rightarrow> None)
             else (case unescape e of
                     None \<Rightarrow> None
                   | Some ch \<Rightarrow> map_option (\<lambda>(str, rest). (ch # str, rest)) (json_string r1)))
      else if (of_char c :: nat) < 32 then None
      else map_option (\<lambda>(str, rest). (c # str, rest)) (json_string r))"

definition is_array_index :: "string \<Rightarrow> bool" where
  "is_array_index k =
     (k \<noteq> [] \<and> list_all is_digit k \<and> (k = ''0'' \<or> hd k \<noteq> CHR ''0'')
        \<and> digits_val k < 2 ^ 32 - 1)"

fun insert_index :: "string \<times> 'a \<Rightarrow> (string \<times> 'a) list \<Rightarrow> (string \<times> 'a) list" where
  "insert_index kv [] = [kv]"
| "insert_index kv (p # ps) =
     (if digits_val (fst kv) < digits_val (fst p) then kv # p # ps else p # insert_index kv ps)"

definition CreateDataProperty :: "(string \<times> 'a) list \<Rightarrow> string \<Rightarrow> 'a \<Rightarrow> (string \<times> 'a) list" where
  "CreateDataProperty obj k v =
     (if k \<in> fst ` set obj then map (\<lambda>(k', v'). if k' = k then (k', v) else (k', v')) obj
      else if is_array_index k
        then insert_index (k, v) (filter (\<lambda>p. is_array_index (fst p)) obj)
               @ filter (\<lambda>p. \<not> is_array_index (fst p)) obj
      else obj @ [(k, v)])"

fun json_value :: "nat \<Rightarrow> string \<Rightarrow> (json \<times> string) option"
  and json_elements :: "nat \<Rightarrow> string \<Rightarrow> (json list \<times> string) option"
  and json_members ::
    "nat \<Rightarrow> (string \<times> json) list \<Rightarrow> string \<Rightarrow> ((string \<times> json) list \<times> string) option"
where
  "json_value 0 s = None"
| "json_value (Suc n) s =
     (case skip_ws s of
        [] \<Rightarrow> None
      | c # r \<Rightarrow>
          if c = CHR ''['' then
            (if skip_ws r \<noteq> [] \<and> hd (skip_ws r) = CHR '']'' then Some (JArr [], tl (skip_ws r))
             else map_option (\<lambda>(vs, rest). (JArr vs, rest)) (json_elements n r))
          else if c = CHR ''{'' then
            (if skip_ws r \<noteq> [] \<and> hd (skip_ws r) = CHR ''}'' then Some (JObj [], tl (skip_ws r))
             else map_option (\<lambda>(ms, rest). (JObj ms, rest)) (json_members n [] r))
          else if c = CHR 0x22 then map_option (\<lambda>(str, rest). (JStr str, rest)) (json_string r)
          else if prefix ''true'' (c # r) then Some (JBool True, drop 4 (c # r))
          else if prefix ''false'' (c # r) then Some (JBool False, drop 5 (c # r))
          else if prefix ''null'' (c # r) then Some (JNull, drop 4 (c # r))
          else map_option (\<lambda>(x, rest). (JNum (Finite x), rest)) (json_number (c # r)))"
| "json_elements 0 s = None"
| "json_elements (Suc n) s =
     (case json_value n s of
        None \<Rightarrow> None
      | Some (v, r) \<Rightarrow>
          (case skip_ws r of
             [] \<Rightarrow> None
           | c # r1 \<Rightarrow>
               if c = CHR '','' then map_option (\<lambda>(vs, rest). (v # vs, rest)) (json_elements n r1)
               else if c = CHR '']'' then Some ([v], r1)
               else None))"
| "json_members 0 obj s = None"
| "json_members (Suc n) obj s =
     (case skip_ws s of
        [] \<Rightarrow> None
      | q # r \<Rightarrow>
          if q \<noteq> CHR 0x22 then None
          else (case json_string r of
                  None \<Rightarrow> None
                | Some (k, r1) \<Rightarrow>
                    (case skip_ws r1 of
                       [] \<Rightarrow> None
                     | col # r2 \<Rightarrow>
                         if col \<noteq> CHR '':'' then None
                         else (case json_value n r2 of
                                 None \<Rightarrow> None
                               | Some (v, r3) \<Rightarrow>
                                   (case skip_ws r3 of
                                      [] \<Rightarrow> None
                                    | c # r4 \<Rightarrow>
                                        if c = CHR '','' then json_members n (CreateDataProperty obj k v) r4
                                        else if c = CHR ''}'' then Some (CreateDataProperty obj k v, r4)
                                        else None)))))"

definition JSON_parse :: "string \<Rightarrow> json option" where
  "JSON_parse s =
     (case json_value (Suc (length s)) s of
        None \<Rightarrow> None
      | Some (v, rest) \<Rightarrow> if skip_ws rest = [] then Some v else None)"

definition hex4 :: "nat \<Rightarrow> string" where
  "hex4 n = ''00'' @ [''0123456789abcdef'' ! (n div 16 mod 16), ''0123456789abcdef'' ! (n mod 16)]"

definition quote_char :: "char \<Rightarrow> string" where
  "quote_char c =
     (if c = CHR 0x22 then [CHR 0x5C, CHR 0x22]
      else if c = CHR 0x5C then [CHR 0x5C, CHR 0x5C]
      else if c = CHR 0x08 then [CHR 0x5C, CHR ''b'']
      else if c = CHR 0x0C then [CHR 0x5C, CHR ''f'']
      else if c = CHR 0x0A then [CHR 0x5C, CHR ''n'']
      else if c = CHR 0x0D then [CHR 0x5C, CHR ''r'']
      else if c = CHR 0x09 then [CHR 0x5C, CHR ''t'']
      else if (of_char c :: nat) < 32 then [CHR 0x5C, CHR ''u''] @ hex4 (of_char c)
      else [c])"

definition QuoteJSONString :: "string \<Rightarrow> string" where
  "QuoteJSONString s = [CHR 0x22] @ concat (map quote_char s) @ [CHR 0x22]"

fun join :: "string \<Rightarrow> string list \<Rightarrow> string" where
  "join sep [] = []"
| "join sep [x] = x"
| "join sep (x # y # ys) = x @ sep @ join sep (y # ys)"

fun JSON_stringify :: "json \<Rightarrow> string" where
  "JSON_stringify JNull = ''null''"
| "JSON_stringify (JBool b) = (if b then ''true'' else ''false'')"
| "JSON_stringify (JNum v) = (case v of Finite x \<Rightarrow> Number_toString v | _ \<Rightarrow> ''null'')"
| "JSON_stringify (JStr s) = QuoteJSONString s"
| "JSON_stringify (JArr vs) = ''['' @ join '','' (map JSON_stringify vs) @ '']''"
| "JSON_stringify (JObj ms) =
     ''{'' @ join '','' (map (\<lambda>(k, v). QuoteJSONString k @ '':'' @ JSON_stringify v) ms) @ ''}''"

section \<open>Thrown values and try/catch\<close>

text \<open>
  The source raises in two ways: \<^verbatim>\<open>JSON.parse\<close> throws a \<^verbatim>\<open>SyntaxError\<close> (its message is
  the engine's; the model fixes one text), and \<^verbatim>\<open>compareTwoSumOutputs\<close> throws an
  \<^verbatim>\<open>Error\<close>. \<open>Inl e\<close> is a raised \<open>e\<close>, \<open>Inr v\<close> a returned \<open>v\<close>.
\<close>


datatype js_error = SyntaxError string | Error string

definition message :: "js_error \<Rightarrow> string" where
  "message e = (case e of SyntaxError m \<Rightarrow> m | Error m \<Rightarrow> m)"

definition try_catch :: "js_error + 'a \<Rightarrow> (js_error \<Rightarrow> js_error + 'a) \<Rightarrow> js_error + 'a" where
  "try_catch body handler = (case body of Inl e \<Rightarrow> handler e | Inr v \<Rightarrow> Inr v)"

definition JSON_parse_throw :: "string \<Rightarrow> js_error + json" where
  "JSON_parse_throw s =
     (case JSON_parse s of
        None \<Rightarrow> Inl (SyntaxError ''Unexpected token in JSON'')
      | Some v \<Rightarrow> Inr v)"

section \<open>validation-utils: normalisation\<close>

text \<open>
  \<open>match_pair\<close> is \<^verbatim>\<open>text.match(/\\[\\s*\\d+\\s*,\\s*\\d+\\s*\\]/)\<close>: the leftmost match, as
  \<open>match_pair_at\<close> tries each start in turn. The character classes of the pattern are
  disjoint, so the greedy match from a given start is the only one. \<open>sort_pair\<close> is
  \<^verbatim>\<open>sort((a, b) => a - b)\<close> on an array of two numbers.

  In \<^verbatim>\<open>normalizeTwoSumOutput\<close> and \<^verbatim>\<open>normalizeArrayOutput\<close> the definition with suffix
  \<open>_body\<close> is the \<^verbatim>\<open>try\<close> block and the function itself adds the \<^verbatim>\<open>catch\<close>.
  \<open>normalizeArrayOutput_body\<close> returns \<open>None\<close> when the block ends without \<^verbatim>\<open>return\<close>.
\<close>


definition startsWith :: "string \<Rightarrow> string \<Rightarrow> bool" where
  "startsWith s p = prefix p s"

definition endsWith :: "string \<Rightarrow> string \<Rightarrow> bool" where
  "endsWith s p = suffix p s"

definition substring :: "string \<Rightarrow> nat \<Rightarrow> nat \<Rightarrow> string" where
  "substring s start end' =
     (let a = min start (length s); b = min end' (length s)
      in take (max a b - min a b) (drop (min a b) s))"

definition toLowerCase :: "string \<Rightarrow> string" where
  "toLowerCase s = map toLowerCase_char s"

definition remove_whitespace :: "string \<Rightarrow> string" where
  "remove_whitespace s = filter (\<lambda>c. \<not> is_space c) s"

definition match_pair_at :: "string \<Rightarrow> string option" where
  "match_pair_at s =
     (case s of
        [] \<Rightarrow> None
      | c # r \<Rightarrow>
          if c \<noteq> CHR ''['' then None
          else
            (let r1 = dropWhile is_space r;
                 d1 = takeWhile is_digit r1;
                 r2 = dropWhile is_space (dropWhile is_digit r1)
             in if d1 = [] \<or> r2 = [] \<or> hd r2 \<noteq> CHR '','' then None
                else
                  (let r3 = dropWhile is_space (tl r2);
                       d2 = takeWhile is_digit r3;
                       r4 = dropWhile is_space (dropWhile is_digit r3)
                   in if d2 = [] \<or> r4 = [] \<or> hd r4 \<noteq> CHR '']'' then None
                      else Some (take (length s - length (tl r4)) s))))"

fun match_pair :: "string \<Rightarrow> string option" where
  "match_pair [] = None"
| "match_pair (c # cs) =
     (case match_pair_at (c # cs) of Some m \<Rightarrow> Some m | None \<Rightarrow> match_pair cs)"

definition num_less :: "jsnum \<Rightarrow> jsnum \<Rightarrow> bool" where
  "num_less a b =
     (case a of
        MinusInfinity \<Rightarrow> b \<noteq> MinusInfinity
      | Finite x \<Rightarrow> (case b of MinusInfinity \<Rightarrow> False | Finite y \<Rightarrow> x < y | PlusInfinity \<Rightarrow> True)
      | PlusInfinity \<Rightarrow> False)"

definition sort_pair :: "jsnum \<Rightarrow> jsnum \<Rightarrow> jsnum list" where
  "sort_pair a b = (if num_less b a then [b, a] else [a, b])"

definition number_or_text :: "string \<Rightarrow> json" where
  "number_or_text v = (case Number v of None \<Rightarrow> JStr v | Some num \<Rightarrow> JNum num)"

definition normalizeGenericOutput :: "string \<Rightarrow> string" where
  "normalizeGenericOutput output = toLowerCase (remove_whitespace output)"

definition normalizeTwoSumOutput_body :: "string \<Rightarrow> js_error + string" where
  "normalizeTwoSumOutput_body output =
     (case (if str_includes output ''['' \<and> str_includes output '']'' then match_pair output
            else None) of
        Some arrayStr \<Rightarrow>
          (case JSON_parse_throw arrayStr of
             Inl e \<Rightarrow> Inl e
           | Inr array \<Rightarrow>
               (case array of
                  JArr [JNum a, JNum b] \<Rightarrow> Inr (JSON_stringify (JArr (map JNum (sort_pair a b))))
                | _ \<Rightarrow> Inr arrayStr))
      | None \<Rightarrow>
          if str_includes output '','' then
            (let values = map trim (str_split (CHR '','') output);
                 parsedValues = map number_or_text values
             in Inr (JSON_stringify (JArr
                  (case parsedValues of
                     [JNum a, JNum b] \<Rightarrow> map JNum (sort_pair a b)
                   | _ \<Rightarrow> parsedValues))))
          else Inr (normalizeGenericOutput output))"

definition normalizeTwoSumOutput :: "string \<Rightarrow> js_error + string" where
  "normalizeTwoSumOutput output =
     try_catch (normalizeTwoSumOutput_body output) (\<lambda>e. Inr (normalizeGenericOutput output))"

definition normalizeArrayOutput_body :: "string \<Rightarrow> js_error + string option" where
  "normalizeArrayOutput_body output =
     (if startsWith output ''['' \<and> endsWith output '']'' then
        (case JSON_parse_throw output of
           Inl e \<Rightarrow> Inl e
         | Inr array \<Rightarrow> Inr (Some (JSON_stringify array)))
      else if str_includes output '','' then
        (let values = map trim (str_split (CHR '','') output);
             parsedValues = map number_or_text values
         in Inr (Some (JSON_stringify (JArr parsedValues))))
      else Inr None)"

definition normalizeArrayOutput :: "string \<Rightarrow> js_error + string" where
  "normalizeArrayOutput output =
     (case try_catch (normalizeArrayOutput_body output) (\<lambda>e. Inr None) of
        Inl e \<Rightarrow> Inl e
      | Inr (Some s) \<Rightarrow> Inr s
      | Inr None \<Rightarrow> Inr (toLowerCase (remove_whitespace output)))"

definition normalizeStringOutput :: "string \<Rightarrow> string" where
  "normalizeStringOutput output =
     (let normalized = trim output;
          normalized =
            (if (startsWith normalized [CHR 0x22] \<and> endsWith normalized [CHR 0x22])
                \<or> (startsWith normalized [CHR 0x27] \<and> endsWith normalized [CHR 0x27])
             then substring normalized 1 (length normalized - 1)
             else normalized)
      in toLowerCase (remove_whitespace normalized))"

definition normalizeOutput :: "string \<Rightarrow> string \<Rightarrow> string \<Rightarrow> js_error + string" where
  "normalizeOutput output language problemType =
     (if output = [] then Inr []
      else try_catch
             (if problemType = ''two-sum'' then normalizeTwoSumOutput output
              else if problemType = ''array'' then normalizeArrayOutput output
              else if problemType = ''string'' then Inr (normalizeStringOutput output)
              else Inr (normalizeGenericOutput output))
             (\<lambda>e. Inr (trim output)))"

section \<open>validation-utils: comparison\<close>

text \<open>
  A comparison result is \<open>passed\<close> and an optional \<open>diff\<close>; the field \<^verbatim>\<open>visualDiff\<close>
  repeats the two texts for the user interface and is left out. \<open>string_diff\<close> is the
  diff of the generic branch of \<^verbatim>\<open>compareOutputs\<close>, \<open>first_difference\<close> its \<^verbatim>\<open>for\<close> loop.
  \<open>parse_actual\<close> is the inner \<^verbatim>\<open>try\<close> of \<^verbatim>\<open>compareTwoSumOutputs\<close>, \<open>compare_parsed\<close> the
  code after the two values are parsed, \<open>element_toString\<close> the conversion
  \<^verbatim>\<open>Array.prototype.join\<close> applies to an element.
\<close>


record comparison =
  passed :: bool
  diff :: "string option"

fun first_difference :: "nat \<Rightarrow> string \<Rightarrow> string \<Rightarrow> string" where
  "first_difference i (x # xs) (y # ys) =
     (if x \<noteq> y
      then ''- First difference at position '' @ dec i @ '': expected '' @ [CHR 0x27, x, CHR 0x27]
             @ '', got '' @ [CHR 0x27, y, CHR 0x27] @ [CHR 0x0A]
      else first_difference (Suc i) xs ys)"
| "first_difference i _ _ = []"

definition string_diff :: "string \<Rightarrow> string \<Rightarrow> string" where
  "string_diff expected actual =
     ''Differences found:'' @ [CHR 0x0A]
     @ ''- Expected: '' @ expected @ [CHR 0x0A] @ ''- Actual: '' @ actual @ [CHR 0x0A]
     @ (if length expected \<noteq> length actual
        then ''- Length mismatch: expected '' @ dec (length expected) @ '', got ''
               @ dec (length actual) @ [CHR 0x0A]
        else [])
     @ first_difference 0 expected actual"

definition typeof :: "json \<Rightarrow> string" where
  "typeof v =
     (case v of
        JNull \<Rightarrow> ''object'' | JBool _ \<Rightarrow> ''boolean'' | JNum _ \<Rightarrow> ''number''
      | JStr _ \<Rightarrow> ''string'' | JArr _ \<Rightarrow> ''object'' | JObj _ \<Rightarrow> ''object'')"

definition isArray :: "json \<Rightarrow> bool" where
  "isArray v = (case v of JArr _ \<Rightarrow> True | _ \<Rightarrow> False)"

fun element_toString :: "json \<Rightarrow> string" where
  "element_toString JNull = []"
| "element_toString (JBool b) = (if b then ''true'' else ''false'')"
| "element_toString (JNum v) = Number_toString v"
| "element_toString (JStr s) = s"
| "element_toString (JArr vs) = join '','' (map element_toString vs)"
| "element_toString (JObj ms) = ''[object Object]''"

definition array_join :: "string \<Rightarrow> json list \<Rightarrow> string" where
  "array_join sep vs = join sep (map element_toString vs)"

definition parse_actual :: "string \<Rightarrow> js_error + json" where
  "parse_actual actual =
     try_catch (JSON_parse_throw actual)
       (\<lambda>e. case match_pair actual of
               Some m \<Rightarrow> JSON_parse_throw m
             | None \<Rightarrow> Inl (Error ''Could not parse actual output as array''))"

definition compare_parsed :: "json \<Rightarrow> json \<Rightarrow> comparison" where
  "compare_parsed expectedArray actualArray =
     (case (expectedArray, actualArray) of
        (JArr es, JArr as) \<Rightarrow>
          (case (es, as) of
             ([JNum e0, JNum e1], [JNum a0, JNum a1]) \<Rightarrow>
               (let sortedExpected = sort_pair e0 e1; sortedActual = sort_pair a0 a1
                in if sortedExpected ! 0 = sortedActual ! 0 \<and> sortedExpected ! 1 = sortedActual ! 1
                   then \<lparr> passed = True, diff = None \<rparr>
                   else \<lparr> passed = False,
                          diff = Some (''Missing elements: ''
                            @ Number_toString (if sortedExpected ! 0 \<noteq> sortedActual ! 0
                                               then sortedExpected ! 0 else sortedExpected ! 1)
                            @ [CHR 0x0A] @ ''Expected indices ['' @ array_join '', '' es
                            @ ''], got ['' @ array_join '', '' as @ '']'') \<rparr>)
           | _ \<Rightarrow>
               if JSON_stringify expectedArray = JSON_stringify actualArray
               then \<lparr> passed = True, diff = None \<rparr>
               else \<lparr> passed = False,
                      diff = Some (''Arrays do not match:'' @ [CHR 0x0A] @ ''Expected: ''
                        @ JSON_stringify expectedArray @ [CHR 0x0A] @ ''Actual: ''
                        @ JSON_stringify actualArray) \<rparr>)
      | _ \<Rightarrow>
          \<lparr> passed = False,
            diff = Some (''Expected an array, but got ''
              @ (if isArray actualArray then ''an array'' else typeof actualArray)) \<rparr>)"

definition compareTwoSumOutputs_body :: "string \<Rightarrow> string \<Rightarrow> js_error + comparison" where
  "compareTwoSumOutputs_body expected actual =
     (case JSON_parse_throw expected of
        Inl e \<Rightarrow> Inl e
      | Inr expectedArray \<Rightarrow>
          (case parse_actual actual of
             Inl e \<Rightarrow> Inl e
           | Inr actualArray \<Rightarrow> Inr (compare_parsed expectedArray actualArray)))"

definition compareTwoSumOutputs :: "string \<Rightarrow> string \<Rightarrow> js_error + comparison" where
  "compareTwoSumOutputs expected actual =
     try_catch (compareTwoSumOutputs_body expected actual)
       (\<lambda>e. if expected = actual then Inr \<lparr> passed = True, diff = None \<rparr>
            else Inr \<lparr> passed = False,
                       diff = Some (''Could not parse outputs as arrays:'' @ [CHR 0x0A]
                         @ ''Expected: '' @ expected @ [CHR 0x0A] @ ''Actual: '' @ actual
                         @ [CHR 0x0A] @ ''Error: '' @ message e) \<rparr>)"

definition compareOutputs :: "string \<Rightarrow> string \<Rightarrow> string \<Rightarrow> js_error + comparison" where
  "compareOutputs expected actual problemType =
     (if problemType = ''two-sum'' then compareTwoSumOutputs expected actual
      else if expected = actual then Inr \<lparr> passed = True, diff = None \<rparr>
      else Inr \<lparr> passed = False, diff = Some (string_diff expected actual) \<rparr>)"

section \<open>User statistics (code-execution-service.ts, updateUserStatistics)\<close>

text \<open>
  One row of the user-statistics table. The source reads every counter as
  \<^verbatim>\<open>(stats.x || 0)\<close>, so a missing counter and the counter 0 are the same value;
  the counters are natural numbers. \<open>lastSolvedDate\<close> is the clock reading at the update.
\<close>

record user_statistics =
  problemsSolved :: nat
  totalSubmissions :: nat
  acceptedSubmissions :: nat
  wrongSubmissions :: nat
  compilationErrors :: nat
  runtimeErrors :: nat
  timeLimitExceeded :: nat
  easySolved :: nat
  mediumSolved :: nat
  hardSolved :: nat
  totalXp :: nat
  streak :: nat
  lastSolvedDate :: nat

definition b2n :: "bool \<Rightarrow> nat" where
  "b2n b = (if b then 1 else 0)"

text \<open>
  \<^verbatim>\<open>updateUserStatistics(userId, status, difficulty, xpEarned)\<close>: the table is a map from
  user ids to rows and the function returns the table after the write. The first branch
  is \<^verbatim>\<open>prisma.userStatistics.create\<close> (no row yet), the second is
  \<^verbatim>\<open>prisma.userStatistics.update\<close>, which writes exactly the fields listed in the source
  and leaves \<open>problemsSolved\<close> as it was.
\<close>

definition updateUserStatistics ::
  "(string \<rightharpoonup> user_statistics) \<Rightarrow> nat \<Rightarrow> string \<Rightarrow> string \<Rightarrow> string \<Rightarrow> nat
     \<Rightarrow> (string \<rightharpoonup> user_statistics)" where
  "updateUserStatistics tbl today userId status difficulty xpEarned =
     (case tbl userId of
        None \<Rightarrow>
          tbl(userId \<mapsto>
            \<lparr> problemsSolved = b2n (status = ''Accepted''),
              totalSubmissions = 1,
              acceptedSubmissions = b2n (status = ''Accepted''),
              wrongSubmissions = b2n (status = ''Wrong Answer''),
              compilationErrors = b2n (status = ''Compilation Error''),
              runtimeErrors = b2n (status = ''Runtime Error''),
              timeLimitExceeded = b2n (status = ''Time Limit Exceeded''),
              easySolved = b2n (status = ''Accepted'' \<and> difficulty = ''easy''),
              mediumSolved = b2n (status = ''Accepted'' \<and> difficulty = ''medium''),
              hardSolved = b2n (status = ''Accepted'' \<and> difficulty = ''hard''),
              totalXp = xpEarned,
              streak = 1,
              lastSolvedDate = today \<rparr>)
      | Some stats \<Rightarrow>
          tbl(userId \<mapsto> stats
            \<lparr> totalSubmissions := totalSubmissions stats + 1,
              acceptedSubmissions := acceptedSubmissions stats + 1,
              wrongSubmissions := wrongSubmissions stats + 1,
              compilationErrors := compilationErrors stats + 1,
              runtimeErrors := runtimeErrors stats + 1,
              timeLimitExceeded := timeLimitExceeded stats + 1,
              easySolved :=
                (if status = ''Accepted'' \<and> difficulty = ''easy''
                 then easySolved stats + 1 else easySolved stats),
              mediumSolved :=
                (if status = ''Accepted'' \<and> difficulty = ''medium''
                 then mediumSolved stats + 1 else mediumSolved stats),
              hardSolved :=
                (if status = ''Accepted'' \<and> difficulty = ''hard''
                 then hardSolved stats + 1 else hardSolved stats),
              totalXp := totalXp stats + xpEarned,
              streak := streak stats + 1,
              lastSolvedDate := today \<rparr>))"

definition zero_statistics :: user_statistics where
  "zero_statistics =
     \<lparr> problemsSolved = 0, totalSubmissions = 0, acceptedSubmissions = 0,
       wrongSubmissions = 0, compilationErrors = 0, runtimeErrors = 0,
       timeLimitExceeded = 0, easySolved = 0, mediumSolved = 0, hardSolved = 0,
       totalXp = 0, streak = 0, lastSolvedDate = 0 \<rparr>"


section \<open>validation-utils: performance limits and the plagiarism screener\<close>

text \<open>
  \<open>toFixed2 x\<close> is \<^verbatim>\<open>x.toFixed(2)\<close>.
\<close>


definition pad2 :: "nat \<Rightarrow> string" where
  "pad2 n = (if n < 10 then ''0'' @ dec n else dec n)"

definition toFixed2 :: "rat \<Rightarrow> string" where
  "toFixed2 x =
     (if 10 ^ 21 \<le> \<bar>x\<bar> then Number_toString (Finite x)
      else (let n = nat \<lfloor>\<bar>x\<bar> * 100 + 1 / 2\<rfloor>
            in (if x < 0 then ''-'' else []) @ dec (n div 100) @ ''.'' @ pad2 (n mod 100)))"

record limits_check =
  limits_passed :: bool
  reason :: "string option"

definition checkPerformanceLimits :: "rat \<Rightarrow> rat \<Rightarrow> rat \<Rightarrow> rat \<Rightarrow> limits_check" where
  "checkPerformanceLimits executionTime memoryUsed timeLimit memoryLimit =
     (if executionTime > timeLimit then
        \<lparr> limits_passed = False,
          reason = Some (''Time limit exceeded: '' @ toFixed2 executionTime @ ''ms (limit: ''
                         @ toFixed2 timeLimit @ ''ms)'') \<rparr>
      else if memoryUsed > memoryLimit then
        \<lparr> limits_passed = False,
          reason = Some (''Memory limit exceeded: '' @ toFixed2 memoryUsed @ ''MB (limit: ''
                         @ toFixed2 memoryLimit @ ''MB)'') \<rparr>
      else \<lparr> limits_passed = True, reason = None \<rparr>)"

text \<open>
  The plagiarism score is a double. \<open>round_to_double x\<close> is the value of the double nearest
  to \<open>x\<close>, ties to the even significand: 53 significant bits in the binade of \<open>x\<close>, and
  multiples of \<open>2\<^sup>-\<^sup>1\<^sup>0\<^sup>7\<^sup>4\<close> below \<open>2\<^sup>-\<^sup>1\<^sup>0\<^sup>2\<^sup>2\<close>. It is the value of a decimal literal such as
  \<^verbatim>\<open>0.1\<close>. \<open>Number_times\<close> is the product of two doubles, which is the rounded exact product
  and overflows to an infinity from \<open>2\<^sup>1\<^sup>0\<^sup>2\<^sup>4\<close> on.

  \<^verbatim>\<open>detectPlagiarism\<close> returns \<^verbatim>\<open>{ isPlagiarized: false, score: 0.1 }\<close> for every input. The
  source first calls \<^verbatim>\<open>normalizeCodeForPlagiarismCheck\<close>, a chain of \<^verbatim>\<open>String.replace\<close> and
  \<^verbatim>\<open>toLowerCase\<close> that cannot raise and whose result is not used.
\<close>

definition pow2 :: "int \<Rightarrow> rat" where
  "pow2 k = (if 0 \<le> k then 2 ^ nat k else 1 / 2 ^ nat (- k))"

fun bit_length :: "nat \<Rightarrow> nat" where
  "bit_length n = (if n = 0 then 0 else Suc (bit_length (n div 2)))"

declare bit_length.simps [simp del]

definition binade :: "rat \<Rightarrow> int" where
  "binade x =
     (let (p, q) = quotient_of x;
          k = int (bit_length (nat p)) - int (bit_length (nat q))
      in if pow2 k \<le> x then k else k - 1)"

definition round_half_even :: "rat \<Rightarrow> int" where
  "round_half_even q =
     (let f = \<lfloor>q\<rfloor>; d = q - of_int f
      in if d < 1 / 2 then f else if 1 / 2 < d then f + 1 else if even f then f else f + 1)"

definition round_to_double :: "rat \<Rightarrow> rat" where
  "round_to_double x =
     (if x = 0 then 0
      else (let ulp = pow2 (max (binade \<bar>x\<bar>) (- 1022) - 52);
                r = of_int (round_half_even (\<bar>x\<bar> / ulp)) * ulp
            in if x < 0 then - r else r))"

definition Number_times :: "rat \<Rightarrow> rat \<Rightarrow> jsnum" where
  "Number_times a b =
     (let r = round_to_double (a * b)
      in if pow2 1024 \<le> r then PlusInfinity
         else if r \<le> - pow2 1024 then MinusInfinity
         else Finite r)"

record plagiarism_check =
  isPlagiarized :: bool
  score :: rat

definition detectPlagiarism :: "string \<Rightarrow> string \<Rightarrow> nat \<Rightarrow> plagiarism_check" where
  "detectPlagiarism code language problemId =
     \<lparr> isPlagiarized = False, score = round_to_double (1 / 10) \<rparr>"

section \<open>code-analyzer: analyzeCodeComplexity\<close>

text \<open>
  A \<open>matcher\<close> gives the length of the match of a pattern at the start of a text.
  \<open>keyword_paren kw\<close> is \<^verbatim>\<open>/kw\\s*\\(/\<close>, \<open>lit p\<close> a literal text, \<open>new_Function\<close> is
  \<^verbatim>\<open>/new\\s+Function/\<close>. \<open>count_matches\<close> is the length of \<^verbatim>\<open>text.match(/.../g)\<close> and
  \<open>replace_all\<close> is \<^verbatim>\<open>text.replace(/.../g, rep)\<close>: matches are taken left to right and do
  not overlap.
\<close>


type_synonym matcher = "string \<Rightarrow> nat option"

definition keyword_paren :: "string \<Rightarrow> matcher" where
  "keyword_paren kw s =
     (if prefix kw s then
        (let r = drop (length kw) s; r' = dropWhile is_space r
         in if r' \<noteq> [] \<and> hd r' = CHR ''(''
            then Some (length kw + length (takeWhile is_space r) + 1) else None)
      else None)"

definition lit :: "string \<Rightarrow> matcher" where
  "lit p s = (if prefix p s then Some (length p) else None)"

definition new_Function :: matcher where
  "new_Function s =
     (if prefix ''new'' s then
        (let r = drop 3 s; ws = takeWhile is_space r
         in if ws \<noteq> [] \<and> prefix ''Function'' (dropWhile is_space r)
            then Some (3 + length ws + 8) else None)
      else None)"

fun count_matches :: "matcher \<Rightarrow> string \<Rightarrow> nat" where
  "count_matches m [] = 0"
| "count_matches m (c # cs) =
     (case m (c # cs) of
        Some (Suc k) \<Rightarrow> Suc (count_matches m (drop k cs))
      | _ \<Rightarrow> count_matches m cs)"

fun replace_all :: "matcher \<Rightarrow> string \<Rightarrow> string \<Rightarrow> string" where
  "replace_all m rep [] = []"
| "replace_all m rep (c # cs) =
     (case m (c # cs) of
        Some (Suc k) \<Rightarrow> rep @ replace_all m rep (drop k cs)
      | _ \<Rightarrow> c # replace_all m rep cs)"

record complexity =
  c_timeComplexity :: string
  c_spaceComplexity :: string
  c_isOptimal :: bool

definition O_n_squared :: string where
  "O_n_squared = ''O(n'' @ [CHR 0xB2] @ '')''"

definition analyzeCodeComplexity :: "string \<Rightarrow> string \<Rightarrow> string \<Rightarrow> complexity" where
  "analyzeCodeComplexity code language problemType =
     (let hasNestedLoops =
            (count_matches (keyword_paren ''for'') code \<ge> 2
             \<or> count_matches (keyword_paren ''while'') code \<ge> 2);
          hasHashMap =
            (str_includes code ''Map('' \<or> str_includes code ''Object.''
             \<or> str_includes code ''dict('' \<or> str_includes code ''HashMap''
             \<or> str_includes code ''unordered_map'');
          hasBinarySearch =
            (str_includes code ''mid''
             \<and> (str_includes code ''left'' \<or> str_includes code ''right'')
             \<and> (str_includes code ''< mid'' \<or> str_includes code ''> mid''));
          dflt = \<lparr> c_timeComplexity = ''O(n)'', c_spaceComplexity = ''O(n)'', c_isOptimal = False \<rparr>
      in if problemType = ''two-sum'' then
           (if hasNestedLoops \<and> \<not> hasHashMap then
              \<lparr> c_timeComplexity = O_n_squared, c_spaceComplexity = ''O(1)'', c_isOptimal = False \<rparr>
            else if hasHashMap then
              \<lparr> c_timeComplexity = ''O(n)'', c_spaceComplexity = ''O(n)'', c_isOptimal = True \<rparr>
            else dflt)
         else if problemType = ''binary-search'' then
           (if hasBinarySearch then
              \<lparr> c_timeComplexity = ''O(log n)'', c_spaceComplexity = ''O(1)'', c_isOptimal = True \<rparr>
            else
              \<lparr> c_timeComplexity = ''O(n)'', c_spaceComplexity = ''O(1)'', c_isOptimal = False \<rparr>)
         else if problemType = ''sorting'' then
           (if str_includes code ''sort('' \<or> str_includes code ''.sort(''
               \<or> str_includes code ''Arrays.sort('' then
              \<lparr> c_timeComplexity = ''O(n log n)'', c_spaceComplexity = ''O(log n)'', c_isOptimal = True \<rparr>
            else if hasNestedLoops then
              \<lparr> c_timeComplexity = O_n_squared, c_spaceComplexity = ''O(1)'', c_isOptimal = False \<rparr>
            else dflt)
         else
           (if hasNestedLoops then
              \<lparr> c_timeComplexity = O_n_squared, c_spaceComplexity = ''O(n)'', c_isOptimal = False \<rparr>
            else if hasBinarySearch then
              \<lparr> c_timeComplexity = ''O(log n)'', c_spaceComplexity = ''O(1)'', c_isOptimal = False \<rparr>
            else if hasHashMap then
              \<lparr> c_timeComplexity = ''O(n)'', c_spaceComplexity = ''O(n)'', c_isOptimal = False \<rparr>
            else dflt))"

section \<open>code-execution-service: the judge\<close>

text \<open>
  \<^verbatim>\<open>sanitizeCode\<close> applies its replacements in the order of the source. Two of the eight
  patterns contain \<^verbatim>\<open>$$\<close> followed by more text; \<^verbatim>\<open>$\<close> matches at the end of the input
  only, so they match nothing and are left out.

  \<^verbatim>\<open>compileCode\<close> is the check of the source without its delay of 500 ms.
\<close>


definition sanitizeCode :: "string \<Rightarrow> string \<Rightarrow> string" where
  "sanitizeCode code language =
     replace_all (lit ''fs.'') ''/* fs. */''
       (replace_all new_Function ''/* new Function */''
         (replace_all (keyword_paren ''Function'') ''/* Function( */''
           (replace_all (keyword_paren ''eval'') ''/* eval( */''
             (replace_all (keyword_paren ''exec'') ''/* exec( */''
               (replace_all (lit ''process.exit'') ''/* process.exit */'' code)))))"

record compilation =
  c_success :: bool
  c_error :: "string option"

definition split_lines :: "string \<Rightarrow> string list" where
  "split_lines code = str_split (CHR 0x0A) code"

fun first_line_where :: "(string \<Rightarrow> bool) \<Rightarrow> nat \<Rightarrow> string list \<Rightarrow> (nat \<times> string) option" where
  "first_line_where bad i [] = None"
| "first_line_where bad i (l # ls) =
     (if bad (trim l) then Some (i, trim l) else first_line_where bad (Suc i) ls)"

definition java_line_unterminated :: "string \<Rightarrow> bool" where
  "java_line_unterminated line =
     (line \<noteq> [] \<and> \<not> endsWith line ''{'' \<and> \<not> endsWith line ''}'' \<and> \<not> endsWith line '';''
      \<and> \<not> startsWith line ''//'' \<and> \<not> startsWith line ''/*'' \<and> \<not> endsWith line ''*/''
      \<and> \<not> startsWith line ''package'' \<and> \<not> startsWith line ''import'')"

definition cpp_line_unterminated :: "string \<Rightarrow> bool" where
  "cpp_line_unterminated line =
     (line \<noteq> [] \<and> \<not> endsWith line ''{'' \<and> \<not> endsWith line ''}'' \<and> \<not> endsWith line '';''
      \<and> \<not> startsWith line ''//'' \<and> \<not> startsWith line ''/*'' \<and> \<not> endsWith line ''*/''
      \<and> \<not> str_includes line ''#include'')"

definition compileCode :: "string \<Rightarrow> string \<Rightarrow> compilation" where
  "compileCode code language =
     (if language = ''javascript'' \<or> language = ''python'' then \<lparr> c_success = True, c_error = None \<rparr>
      else if language = ''java'' then
        (if \<not> str_includes code ''class'' \<or> \<not> str_includes code ''public static void main'' then
           \<lparr> c_success = False,
             c_error = Some (''error: missing '' @ [CHR 0x27] @ ''public static void main''
               @ [CHR 0x27] @ '' method'' @ [CHR 0x0A] @ ''  public class must contain a main method'') \<rparr>
         else (case first_line_where java_line_unterminated 0 (split_lines code) of
                 Some (i, line) \<Rightarrow>
                   \<lparr> c_success = False,
                     c_error = Some (''error: '' @ [CHR 0x27] @ '';'' @ [CHR 0x27] @ '' expected''
                       @ [CHR 0x0A] @ ''  at line '' @ dec (i + 1) @ '': '' @ line) \<rparr>
               | None \<Rightarrow> \<lparr> c_success = True, c_error = None \<rparr>))
      else if language = ''cpp'' then
        (if \<not> str_includes code ''main('' \<and> \<not> str_includes code ''main ('' then
           \<lparr> c_success = False,
             c_error = Some (''error: '' @ [CHR 0x27] @ ''main'' @ [CHR 0x27] @ '' function not found''
               @ [CHR 0x0A] @ ''  program must contain a main function'') \<rparr>
         else (case first_line_where cpp_line_unterminated 0 (split_lines code) of
                 Some (i, line) \<Rightarrow>
                   \<lparr> c_success = False,
                     c_error = Some (''error: expected '' @ [CHR 0x27] @ '';'' @ [CHR 0x27]
                       @ '' at end of declaration'' @ [CHR 0x0A] @ ''  at line '' @ dec (i + 1)
                       @ '': '' @ line) \<rparr>
               | None \<Rightarrow> \<lparr> c_success = True, c_error = None \<rparr>))
      else \<lparr> c_success = True, c_error = None \<rparr>)"

text \<open>
  A row of the problems table, with the columns \<^verbatim>\<open>validateTestCases\<close> and
  \<^verbatim>\<open>submitSolution\<close> read; \<open>None\<close> is a missing or null column (\<open>code_tag\<close> is the column
  \<^verbatim>\<open>code\<close>, which holds the problem type). A test case has the two columns
  \<^verbatim>\<open>executeTestCase\<close> reads.

  \<open>runCodeInLanguage\<close> is the executor. The executors of language-executors.ts draw
  random numbers, so the executor is a parameter: given the sanitised code, the
  language, the input and the problem type it raises or returns an output, an optional
  error text and \<open>ex_elapsed\<close>, the difference of the two \<^verbatim>\<open>performance.now()\<close> readings
  around the call, in milliseconds. \<open>judgeSeconds\<close> is the difference of the two
  \<^verbatim>\<open>Date.now()\<close> readings of \<^verbatim>\<open>executeCode\<close> in seconds, \<open>random\<close> the value of
  \<^verbatim>\<open>Math.random()\<close>, \<open>clock\<close> the date. Calls to the database are taken to return.
\<close>

record problem =
  difficulty :: string
  code_tag :: "string option"
  time_limit :: "rat option"
  memory_limit :: "rat option"
  time_complexity :: string

record test_case =
  tc_input :: string
  expected_output :: string

record execution =
  ex_output :: string
  ex_error :: "string option"
  ex_elapsed :: rat

type_synonym executor_call = "string \<times> string \<times> string \<times> string"

record env =
  findProblem :: "nat \<Rightarrow> problem option"
  findTestCases :: "nat \<Rightarrow> test_case list"
  runCodeInLanguage :: "string \<Rightarrow> string \<Rightarrow> string \<Rightarrow> string \<Rightarrow> js_error + execution"
  judgeSeconds :: rat
  random :: rat
  clock :: nat

record TestCaseResult =
  input :: string
  expectedOutput :: string
  actualOutput :: string
  tc_passed :: bool
  tc_executionTime :: "rat option"
  errorMessage :: "string option"
  tc_diff :: "string option"

text \<open>
  \<open>truthy\<close> is the truth value of an optional string in a condition, \<open>or_default v d\<close>
  is \<^verbatim>\<open>v || d\<close> on numbers. \<^verbatim>\<open>formatOutput\<close> returns \<^verbatim>\<open>String(output)\<close> for an output that
  is not an object; the executor's output is a string.

  \<open>executeTestCase_body\<close> is the \<^verbatim>\<open>try\<close> block of \<^verbatim>\<open>executeTestCase\<close>. \<open>executeTestCase\<close>
  adds the \<^verbatim>\<open>catch\<close> and appends the call to the log of executor calls; \<open>executeAll\<close>
  is the \<^verbatim>\<open>Promise.all\<close> over the test cases, whose bodies run one after the other in
  the order of the list.
\<close>

definition truthy :: "string option \<Rightarrow> bool" where
  "truthy s = (case s of None \<Rightarrow> False | Some t \<Rightarrow> t \<noteq> [])"

definition or_default :: "rat option \<Rightarrow> rat \<Rightarrow> rat" where
  "or_default v d = (case v of None \<Rightarrow> d | Some x \<Rightarrow> if x = 0 then d else x)"

definition formatOutput :: "string \<Rightarrow> string \<Rightarrow> string \<Rightarrow> string" where
  "formatOutput output language problemType = output"

definition executeTestCase_body ::
  "env \<Rightarrow> string \<Rightarrow> string \<Rightarrow> test_case \<Rightarrow> nat \<Rightarrow> string \<Rightarrow> rat \<Rightarrow> rat
     \<Rightarrow> js_error + TestCaseResult" where
  "executeTestCase_body env code language testCase problemId problemType timeLimit memoryLimit =
     (let input = tc_input testCase;
          expectedOutput = expected_output testCase;
          sanitizedCode = sanitizeCode code language
      in case runCodeInLanguage env sanitizedCode language input problemType of
           Inl e \<Rightarrow> Inl e
         | Inr executionResult \<Rightarrow>
             (let executionTime = ex_elapsed executionResult
              in if truthy (ex_error executionResult) then
                   Inr \<lparr> input = input, expectedOutput = expectedOutput, actualOutput = [],
                         tc_passed = False, tc_executionTime = Some executionTime,
                         errorMessage = ex_error executionResult, tc_diff = None \<rparr>
                 else
                   (let performanceCheck = checkPerformanceLimits executionTime 0 timeLimit memoryLimit
                    in if \<not> limits_passed performanceCheck then
                         Inr \<lparr> input = input, expectedOutput = expectedOutput,
                               actualOutput = ex_output executionResult,
                               tc_passed = False, tc_executionTime = Some executionTime,
                               errorMessage = reason performanceCheck, tc_diff = None \<rparr>
                       else
                         (let formattedOutput = formatOutput (ex_output executionResult) language problemType
                          in case normalizeOutput expectedOutput language problemType of
                               Inl e \<Rightarrow> Inl e
                             | Inr normalizedExpected \<Rightarrow>
                                 (case normalizeOutput formattedOutput language problemType of
                                    Inl e \<Rightarrow> Inl e
                                  | Inr normalizedActual \<Rightarrow>
                                      (case compareOutputs normalizedExpected normalizedActual problemType of
                                         Inl e \<Rightarrow> Inl e
                                       | Inr comparisonResult \<Rightarrow>
                                           Inr \<lparr> input = input, expectedOutput = expectedOutput,
                                                 actualOutput = formattedOutput,
                                                 tc_passed = passed comparisonResult,
                                                 tc_executionTime = Some executionTime,
                                                 errorMessage = None,
                                                 tc_diff = diff comparisonResult \<rparr>))))))"

definition executeTestCase ::
  "env \<Rightarrow> executor_call list \<Rightarrow> string \<Rightarrow> string \<Rightarrow> test_case \<Rightarrow> nat \<Rightarrow> string \<Rightarrow> rat \<Rightarrow> rat
     \<Rightarrow> TestCaseResult \<times> executor_call list" where
  "executeTestCase env calls code language testCase problemId problemType timeLimit memoryLimit =
     ((case executeTestCase_body env code language testCase problemId problemType timeLimit memoryLimit of
         Inr r \<Rightarrow> r
       | Inl e \<Rightarrow>
           \<lparr> input = tc_input testCase, expectedOutput = expected_output testCase,
             actualOutput = ''Error executing test case'', tc_passed = False,
             tc_executionTime = None, errorMessage = Some (message e), tc_diff = None \<rparr>),
      calls @ [(sanitizeCode code language, language, tc_input testCase, problemType)])"

fun executeAll ::
  "env \<Rightarrow> executor_call list \<Rightarrow> string \<Rightarrow> string \<Rightarrow> test_case list \<Rightarrow> nat \<Rightarrow> string \<Rightarrow> rat \<Rightarrow> rat
     \<Rightarrow> TestCaseResult list \<times> executor_call list" where
  "executeAll env calls code language [] problemId problemType timeLimit memoryLimit = ([], calls)"
| "executeAll env calls code language (testCase # rest) problemId problemType timeLimit memoryLimit =
     (let (r, calls1) =
            executeTestCase env calls code language testCase problemId problemType timeLimit memoryLimit;
          (rs, calls2) =
            executeAll env calls1 code language rest problemId problemType timeLimit memoryLimit
      in (r # rs, calls2))"

definition is_time_limit :: "string option \<Rightarrow> bool" where
  "is_time_limit m = (case m of None \<Rightarrow> False | Some t \<Rightarrow> t \<noteq> [] \<and> str_includes t ''Time Limit'')"

definition is_runtime_error :: "string option \<Rightarrow> bool" where
  "is_runtime_error m = (case m of None \<Rightarrow> False | Some t \<Rightarrow> t \<noteq> [] \<and> \<not> str_includes t ''Time Limit'')"

definition generateFeedback ::
  "TestCaseResult list \<Rightarrow> nat \<Rightarrow> nat \<Rightarrow> complexity \<Rightarrow> problem \<Rightarrow> string list" where
  "generateFeedback results npassed ntotal cx prob =
     (if npassed = ntotal then
        [''Great job! All test cases passed.'',
         (if c_isOptimal cx then ''Your solution has optimal time and space complexity.''
          else ''Your solution works correctly, but could be optimized. The expected time complexity is ''
               @ time_complexity prob @ ''.'')]
      else if npassed = 0 then
        [''Your solution didn'' @ [CHR 0x27]
           @ ''t pass any test cases. Review the problem statement carefully.'']
      else [''Your solution passed '' @ dec npassed @ '' out of '' @ dec ntotal @ '' test cases.''])
     @ (let failedResults = filter (\<lambda>r. \<not> tc_passed r) results;
            hasRuntimeErrors = list_ex (\<lambda>r. is_runtime_error (errorMessage r)) failedResults;
            hasTimeLimitExceeded = list_ex (\<lambda>r. is_time_limit (errorMessage r)) failedResults
        in (if hasRuntimeErrors then
              [''Your code has runtime errors on some test cases. Check for edge cases like empty arrays or null values.'']
            else [])
           @ (if hasTimeLimitExceeded then
                [''Your solution exceeds the time limit. Try to optimize your algorithm to meet the expected ''
                   @ time_complexity prob @ '' time complexity.'']
              else []))"

text \<open>
  The result of \<^verbatim>\<open>validateTestCases\<close>; the three early returns of the source leave the
  complexity and plagiarism fields undefined (\<open>None\<close>).
\<close>

record validation =
  v_testCasesPassed :: nat
  v_totalTestCases :: nat
  v_results :: "TestCaseResult list"
  v_isOptimal :: bool
  v_compilationError :: bool
  v_compilationErrorMessage :: "string option"
  v_timeComplexity :: "string option"
  v_spaceComplexity :: "string option"
  v_potentialPlagiarism :: "bool option"
  v_plagiarismScore :: "rat option"
  v_feedback :: "string list"

definition no_tests :: "string list \<Rightarrow> validation" where
  "no_tests fb =
     \<lparr> v_testCasesPassed = 0, v_totalTestCases = 0, v_results = [], v_isOptimal = False,
       v_compilationError = False, v_compilationErrorMessage = None, v_timeComplexity = None,
       v_spaceComplexity = None, v_potentialPlagiarism = None, v_plagiarismScore = None,
       v_feedback = fb \<rparr>"

definition validateTestCases ::
  "env \<Rightarrow> executor_call list \<Rightarrow> nat \<Rightarrow> string \<Rightarrow> string \<Rightarrow> validation \<times> executor_call list" where
  "validateTestCases env calls problemId code language =
     (let compilationResult = compileCode code language
      in if \<not> c_success compilationResult then
           ((no_tests
               [''Your code failed to compile. Check the error message for details.'',
                ''Make sure all syntax is correct for the chosen language.''])
              \<lparr> v_compilationError := True, v_compilationErrorMessage := c_error compilationResult \<rparr>,
            calls)
         else
           (case findProblem env problemId of
              None \<Rightarrow> (no_tests [''Problem not found''], calls)
            | Some prob \<Rightarrow>
                (let testCases = findTestCases env problemId
                 in if length testCases = 0 then
                      (no_tests [''No test cases found for this problem''], calls)
                    else
                      (let problemType = (case code_tag prob of None \<Rightarrow> ''general''
                                             | Some t \<Rightarrow> if t = [] then ''general'' else t);
                           timeLimit = or_default (time_limit prob) 2000;
                           memoryLimit = or_default (memory_limit prob) 128;
                           (results, calls') =
                             executeAll env calls code language testCases problemId problemType
                               timeLimit memoryLimit;
                           testCasesPassed = length (filter tc_passed results);
                           complexityAnalysis = analyzeCodeComplexity code language problemType;
                           plagiarismCheck = detectPlagiarism code language problemId;
                           feedback =
                             generateFeedback results testCasesPassed (length testCases)
                               complexityAnalysis prob;
                           isOptimal =
                             (testCasesPassed = length testCases
                              \<and> c_isOptimal complexityAnalysis
                              \<and> list_all (\<lambda>r. case tc_executionTime r of
                                                 None \<Rightarrow> False
                                               | Some t \<Rightarrow> t \<noteq> 0 \<and> t < timeLimit * (1 / 2)) results)
                       in (\<lparr> v_testCasesPassed = testCasesPassed,
                             v_totalTestCases = length testCases,
                             v_results = results,
                             v_isOptimal = isOptimal,
                             v_compilationError = False,
                             v_compilationErrorMessage = None,
                             v_timeComplexity = Some (c_timeComplexity complexityAnalysis),
                             v_spaceComplexity = Some (c_spaceComplexity complexityAnalysis),
                             v_potentialPlagiarism = Some (isPlagiarized plagiarismCheck),
                             v_plagiarismScore = Some (score plagiarismCheck),
                             v_feedback = feedback \<rparr>, calls')))))"

text \<open>
  \<^verbatim>\<open>executeCode\<close>: the result record of the source, the output text it assembles
  (\<open>language_banner\<close>, \<open>failure_report\<close>, the complexity lines, \<open>plagiarism_warning\<close>),
  and the function itself. \<open>percent\<close> is \<^verbatim>\<open>Math.round(plagiarismScore * 100)\<close> as the two
  messages that name the score print it; an undefined score prints \<^verbatim>\<open>NaN\<close>.
\<close>

record ExecutionResult =
  success :: bool
  er_output :: string
  executionTime :: rat
  memoryUsed :: rat
  testCasesPassed :: nat
  totalTestCases :: nat
  testCaseResults :: "TestCaseResult list"
  er_errorMessage :: "string option"
  compilationError :: bool
  timeComplexity :: "string option"
  spaceComplexity :: "string option"
  potentialPlagiarism :: "bool option"
  plagiarismScore :: "rat option"

definition Math_round :: "rat \<Rightarrow> int" where
  "Math_round x = \<lfloor>x + 1 / 2\<rfloor>"

definition int_toString :: "int \<Rightarrow> string" where
  "int_toString i = Number_toString (Finite (of_int i))"

definition percent :: "rat option \<Rightarrow> string" where
  "percent p =
     (case p of
        None \<Rightarrow> ''NaN''
      | Some s \<Rightarrow>
          (case Number_times s 100 of
             Finite y \<Rightarrow> int_toString (Math_round y)
           | PlusInfinity \<Rightarrow> ''Infinity''
           | MinusInfinity \<Rightarrow> ''-Infinity''))"

fun failure_report :: "nat \<Rightarrow> TestCaseResult list \<Rightarrow> string" where
  "failure_report index [] = []"
| "failure_report index (tc # tcs) =
     [CHR 0x0A, CHR 0x0A] @ ''Test Case '' @ dec (index + 1) @ '':''
     @ [CHR 0x0A] @ ''Input: '' @ input tc
     @ [CHR 0x0A] @ ''Expected: '' @ expectedOutput tc
     @ [CHR 0x0A] @ ''Actual: '' @ actualOutput tc
     @ (case errorMessage tc of
          None \<Rightarrow> []
        | Some m \<Rightarrow> if m = [] then [] else [CHR 0x0A] @ ''Error: '' @ m)
     @ (case tc_diff tc of
          None \<Rightarrow> []
        | Some d \<Rightarrow> if d = [] then [] else [CHR 0x0A] @ ''Difference: '' @ d)
     @ failure_report (Suc index) tcs"

definition language_banner :: "string \<Rightarrow> string \<Rightarrow> string" where
  "language_banner language code =
     (if language = ''javascript'' then
        ''// JavaScript execution'' @ [CHR 0x0A] @ substring code 0 100 @ ''...''
          @ [CHR 0x0A, CHR 0x0A] @ ''> Executed successfully''
      else if language = ''python'' then
        ''# Python execution'' @ [CHR 0x0A] @ substring code 0 100 @ ''...''
          @ [CHR 0x0A, CHR 0x0A] @ ''> Executed successfully''
      else if language = ''java'' then
        ''// Java execution'' @ [CHR 0x0A] @ substring code 0 100 @ ''...''
          @ [CHR 0x0A, CHR 0x0A] @ ''> Compiled and executed successfully''
      else if language = ''cpp'' then
        ''// C++ execution'' @ [CHR 0x0A] @ substring code 0 100 @ ''...''
          @ [CHR 0x0A, CHR 0x0A] @ ''> Compiled and executed successfully''
      else ''Execution for '' @ language @ '' is not supported yet.'')"

definition plagiarism_warning :: "rat option \<Rightarrow> string" where
  "plagiarism_warning p =
     [CHR 0x0A, CHR 0x0A] @ ''Warning: Your solution has a high similarity (''
     @ percent p
     @ ''%) with existing solutions. Please ensure your work is original.''"

definition executeCode ::
  "env \<Rightarrow> executor_call list \<Rightarrow> string \<Rightarrow> string \<Rightarrow> nat \<Rightarrow> ExecutionResult \<times> executor_call list" where
  "executeCode env calls code language problemId =
     (let (testCaseResults, calls') = validateTestCases env calls problemId code language
      in if v_compilationError testCaseResults then
           (\<lparr> success = False,
              er_output = ''Compilation Error: ''
                @ (case v_compilationErrorMessage testCaseResults of None \<Rightarrow> ''undefined'' | Some m \<Rightarrow> m),
              executionTime = 0,
              memoryUsed = 0,
              testCasesPassed = 0,
              totalTestCases = v_totalTestCases testCaseResults,
              testCaseResults = [],
              er_errorMessage = v_compilationErrorMessage testCaseResults,
              compilationError = True,
              timeComplexity = None,
              spaceComplexity = None,
              potentialPlagiarism = None,
              plagiarismScore = None \<rparr>, calls')
         else
           (let executionTime = judgeSeconds env;
                memoryUsed = random env * 10 + 5;
                failedTestCases = filter (\<lambda>tc. \<not> tc_passed tc) (v_results testCaseResults);
                output_text =
                  language_banner language code
                  @ (if length failedTestCases > 0
                     then [CHR 0x0A, CHR 0x0A] @ ''Test case failures:'' @ failure_report 0 failedTestCases
                     else [])
                  @ (if truthy (v_timeComplexity testCaseResults)
                     then [CHR 0x0A, CHR 0x0A] @ ''Time Complexity: ''
                            @ (case v_timeComplexity testCaseResults of None \<Rightarrow> [] | Some t \<Rightarrow> t)
                     else [])
                  @ (if truthy (v_spaceComplexity testCaseResults)
                     then [CHR 0x0A] @ ''Space Complexity: ''
                            @ (case v_spaceComplexity testCaseResults of None \<Rightarrow> [] | Some t \<Rightarrow> t)
                     else [])
                  @ (if v_potentialPlagiarism testCaseResults = Some True
                     then plagiarism_warning (v_plagiarismScore testCaseResults)
                     else [])
            in (\<lparr> success = (v_testCasesPassed testCaseResults = v_totalTestCases testCaseResults),
                  er_output = output_text,
                  executionTime = executionTime,
                  memoryUsed = memoryUsed,
                  testCasesPassed = v_testCasesPassed testCaseResults,
                  totalTestCases = v_totalTestCases testCaseResults,
                  testCaseResults = v_results testCaseResults,
                  er_errorMessage = None,
                  compilationError = False,
                  timeComplexity = v_timeComplexity testCaseResults,
                  spaceComplexity = v_spaceComplexity testCaseResults,
                  potentialPlagiarism = v_potentialPlagiarism testCaseResults,
                  plagiarismScore = v_plagiarismScore testCaseResults \<rparr>, calls')))"

text \<open>
  \<^verbatim>\<open>submitSolution\<close>. \<open>determine_status\<close> is the \<^verbatim>\<open>if\<close> chain that sets \<^verbatim>\<open>status\<close>.
  The problem row \<^verbatim>\<open>submitSolution\<close> selects has no column \<^verbatim>\<open>time_complexity\<close>, so
  \<^verbatim>\<open>generateImprovementSuggestions\<close> reads \<^verbatim>\<open>undefined\<close> there (\<open>None\<close>). The insert of the
  compilation-error branch and \<^verbatim>\<open>prisma.submission.create\<close> write the same table.
  \<^verbatim>\<open>updateLeaderboardRankings\<close> writes the column \<^verbatim>\<open>rank\<close> only, which the model of a
  statistics row does not have.
\<close>

record submission =
  sub_userId :: string
  sub_problemId :: nat
  sub_code :: string
  sub_language :: string
  sub_status :: string
  sub_executionTime :: rat
  sub_memoryUsed :: rat

record solution =
  sol_userId :: string
  sol_problemId :: nat
  sol_code :: string
  sol_language :: string
  sol_status :: string
  sol_executionTime :: rat
  sol_memoryUsed :: rat
  xpEarned :: nat
  isOptimal :: bool

record world =
  submissions :: "submission list"
  solutions :: "solution list"
  statistics :: "string \<rightharpoonup> user_statistics"
  executor_calls :: "executor_call list"

record SubmissionResult =
  sr_success :: bool
  sr_submission :: "submission option"
  sr_executionResult :: "ExecutionResult option"
  sr_message :: "string option"
  pointsEarned :: "nat option"
  improvementSuggestions :: "string list option"

definition generateImprovementSuggestions ::
  "ExecutionResult \<Rightarrow> string option \<Rightarrow> string \<Rightarrow> string list" where
  "generateImprovementSuggestions executionResult problem_time_complexity language =
     (let expected = (case problem_time_complexity of None \<Rightarrow> ''undefined'' | Some t \<Rightarrow> t);
          suggestions1 =
            (if success executionResult \<and> timeComplexity executionResult \<noteq> problem_time_complexity then
               [''Your solution works correctly, but could be optimized to '' @ expected
                  @ '' time complexity.'']
               @ (if language = ''javascript'' then
                    [''Consider using hash maps (Objects or Maps) for O(1) lookups instead of nested loops.'']
                  else if language = ''python'' then
                    [''Consider using dictionaries for O(1) lookups instead of nested loops.'']
                  else if language = ''java'' then
                    [''Consider using HashMaps for O(1) lookups instead of nested loops.'']
                  else if language = ''cpp'' then
                    [''Consider using unordered_map for O(1) lookups instead of nested loops.'']
                  else [])
             else []);
          suggestions2 =
            (if \<not> success executionResult then
               (let failedTests = filter (\<lambda>r. \<not> tc_passed r) (testCaseResults executionResult);
                    hasEmptyArrayFailures =
                      list_ex (\<lambda>t. str_includes (input t) ''[]'' \<or> str_includes (input t) ''{}''
                                    \<or> str_includes (input t) [CHR 0x27, CHR 0x27]
                                    \<or> str_includes (input t) [CHR 0x22, CHR 0x22]) failedTests;
                    hasOffByOneErrors =
                      list_ex (\<lambda>t. case tc_diff t of
                                      None \<Rightarrow> False
                                    | Some d \<Rightarrow> d \<noteq> [] \<and> (str_includes d ''off by 1''
                                        \<or> str_includes d ''index'' \<or> str_includes d ''boundary''))
                        failedTests
                in (if hasEmptyArrayFailures
                    then [''Check how your code handles empty arrays or collections.''] else [])
                   @ (if hasOffByOneErrors
                      then [''Check for off-by-one errors in your array indexing or loop conditions.'']
                      else []))
             else []);
          suggestions = suggestions1 @ suggestions2
      in if length suggestions = 0 then
           [''Keep practicing to improve your problem-solving skills!'',
            ''Try solving this problem using a different approach or algorithm.'']
         else suggestions)"

definition determine_status :: "ExecutionResult \<Rightarrow> string" where
  "determine_status executionResult =
     (if testCasesPassed executionResult = totalTestCases executionResult then ''Accepted''
      else if list_ex (\<lambda>r. case errorMessage r of
                              None \<Rightarrow> False
                            | Some m \<Rightarrow> str_includes m ''Time Limit'') (testCaseResults executionResult)
        then ''Time Limit Exceeded''
      else if list_ex (\<lambda>r. is_runtime_error (errorMessage r)) (testCaseResults executionResult)
        then ''Runtime Error''
      else ''Wrong Answer'')"

definition submitSolution ::
  "env \<Rightarrow> world \<Rightarrow> string \<Rightarrow> nat \<Rightarrow> string \<Rightarrow> string \<Rightarrow> SubmissionResult \<times> world" where
  "submitSolution env w userId problemId code language =
     (case findProblem env problemId of
        None \<Rightarrow>
          (\<lparr> sr_success = False, sr_submission = None, sr_executionResult = None,
             sr_message = Some (''Failed to submit solution: '' @ message (Error ''Problem not found'')),
             pointsEarned = None, improvementSuggestions = None \<rparr>, w)
      | Some prob \<Rightarrow>
          (let (executionResult, calls') = executeCode env (executor_calls w) code language problemId;
               w1 = w \<lparr> executor_calls := calls' \<rparr>
           in if compilationError executionResult then
                (\<lparr> sr_success = False, sr_submission = None,
                   sr_executionResult = Some executionResult,
                   sr_message = Some (''Compilation Error: ''
                     @ (case er_errorMessage executionResult of None \<Rightarrow> ''undefined'' | Some m \<Rightarrow> m)),
                   pointsEarned = None, improvementSuggestions = None \<rparr>,
                 w1 \<lparr> submissions := submissions w1 @
                        [\<lparr> sub_userId = userId, sub_problemId = problemId, sub_code = code,
                           sub_language = language, sub_status = ''Compilation Error'',
                           sub_executionTime = 0, sub_memoryUsed = 0 \<rparr>] \<rparr>)
              else if potentialPlagiarism executionResult = Some True
                      \<and> (case plagiarismScore executionResult of
                            None \<Rightarrow> False | Some s \<Rightarrow> s > round_to_double (8 / 10)) then
                (\<lparr> sr_success = False, sr_submission = None,
                   sr_executionResult = Some executionResult,
                   sr_message = Some (''Potential plagiarism detected with ''
                     @ percent (plagiarismScore executionResult)
                     @ ''% similarity to existing solutions. Please submit your own work.''),
                   pointsEarned = None, improvementSuggestions = None \<rparr>, w1)
              else
                (let status = determine_status executionResult;
                     xp = (if status = ''Accepted'' then 100 else 0);
                     suggestions = generateImprovementSuggestions executionResult None language;
                     sub = \<lparr> sub_userId = userId, sub_problemId = problemId, sub_code = code,
                             sub_language = language, sub_status = status,
                             sub_executionTime = executionTime executionResult,
                             sub_memoryUsed = memoryUsed executionResult \<rparr>;
                     w2 = w1 \<lparr> submissions := submissions w1 @ [sub] \<rparr>;
                     w3 = (if status = ''Accepted'' then
                             w2 \<lparr> solutions := solutions w2 @
                                    [\<lparr> sol_userId = userId, sol_problemId = problemId, sol_code = code,
                                       sol_language = language, sol_status = status,
                                       sol_executionTime = executionTime executionResult,
                                       sol_memoryUsed = memoryUsed executionResult,
                                       xpEarned = xp, isOptimal = True \<rparr>] \<rparr>
                           else w2);
                     w4 = w3 \<lparr> statistics :=
                                 updateUserStatistics (statistics w3) (clock env) userId status
                                   (difficulty prob) xp \<rparr>
                 in (\<lparr> sr_success = True, sr_submission = Some sub,
                       sr_executionResult = Some executionResult, sr_message = None,
                       pointsEarned = Some xp, improvementSuggestions = Some suggestions \<rparr>, w4))))"

section \<open>output-validator: the comparator that parses arrays\<close>

text \<open>
  \<^verbatim>\<open>compareOutputs\<close> of output-validator.ts, here \<open>ov_compareOutputs\<close>. \<open>Set_of xs\<close> lists
  the elements of \<^verbatim>\<open>new Set(xs)\<close> in insertion order.
\<close>


definition Set_of :: "string list \<Rightarrow> string list" where
  "Set_of xs = foldl (\<lambda>acc x. if x \<in> set acc then acc else acc @ [x]) [] xs"

definition ov_array_diff :: "json list \<Rightarrow> json list \<Rightarrow> string" where
  "ov_array_diff expectedObj actualObj =
     (let expectedSet = Set_of (map JSON_stringify expectedObj);
          actualSet = Set_of (map JSON_stringify actualObj);
          missing = filter (\<lambda>item. item \<notin> set actualSet) expectedSet;
          extra = filter (\<lambda>item. item \<notin> set expectedSet) actualSet
      in (if length expectedObj \<noteq> length actualObj
          then ''- Array length mismatch: expected '' @ dec (length expectedObj) @ '', got ''
                 @ dec (length actualObj) @ [CHR 0x0A]
          else [])
         @ (if length missing > 0
            then ''- Missing elements: '' @ join '', '' missing @ [CHR 0x0A] else [])
         @ (if length extra > 0
            then ''- Extra elements: '' @ join '', '' extra @ [CHR 0x0A] else []))"

definition ov_compareOutputs :: "string \<Rightarrow> string \<Rightarrow> comparison" where
  "ov_compareOutputs expected actual =
     (if expected = actual then \<lparr> passed = True, diff = None \<rparr>
      else
        \<lparr> passed = False,
          diff = Some (''Differences found:'' @ [CHR 0x0A]
            @ (if (startsWith expected ''{'' \<and> endsWith expected ''}'')
                  \<or> (startsWith expected ''['' \<and> endsWith expected '']'') then
                 (case (JSON_parse expected, JSON_parse actual) of
                    (Some expectedObj, Some actualObj) \<Rightarrow>
                      (case (expectedObj, actualObj) of
                         (JArr es, JArr as) \<Rightarrow> ov_array_diff es as
                       | _ \<Rightarrow> ''Objects differ'' @ [CHR 0x0A])
                  | _ \<Rightarrow> ''- Expected: '' @ expected @ [CHR 0x0A] @ ''- Actual: '' @ actual @ [CHR 0x0A])
               else
                 ''- Expected: '' @ expected @ [CHR 0x0A] @ ''- Actual: '' @ actual @ [CHR 0x0A]
                 @ (if length expected \<noteq> length actual
                    then ''- Length mismatch: expected '' @ dec (length expected) @ '', got ''
                           @ dec (length actual) @ [CHR 0x0A]
                    else [])
                 @ first_difference 0 expected actual)) \<rparr>)"


section \<open>Definitions used to state the results\<close>

text \<open>
  \<open>normalize_and_compare\<close> is the step of \<^verbatim>\<open>executeTestCase\<close> that normalises the expected
  and the actual output and compares the two normal forms. \<open>pair_text a b\<close> is the text
  \<^verbatim>\<open>[a,b]\<close> of two non-negative integers in decimal notation, and \<open>pair_text_ws\<close> the
  same text with a string put before and after each of the two numbers.
\<close>

definition normalize_and_compare :: "string \<Rightarrow> string \<Rightarrow> string \<Rightarrow> string \<Rightarrow> js_error + comparison" where
  "normalize_and_compare expected actual language problemType =
     (case normalizeOutput expected language problemType of
        Inl e \<Rightarrow> Inl e
      | Inr normalizedExpected \<Rightarrow>
          (case normalizeOutput actual language problemType of
             Inl e \<Rightarrow> Inl e
           | Inr normalizedActual \<Rightarrow> compareOutputs normalizedExpected normalizedActual problemType))"

definition pair_text :: "nat \<Rightarrow> nat \<Rightarrow> string" where
  "pair_text a b = ''['' @ dec a @ '','' @ dec b @ '']''"

definition pair_text_ws :: "string \<Rightarrow> nat \<Rightarrow> string \<Rightarrow> string \<Rightarrow> nat \<Rightarrow> string \<Rightarrow> string" where
  "pair_text_ws w1 a w2 w3 b w4 = ''['' @ w1 @ dec a @ w2 @ '','' @ w3 @ dec b @ w4 @ '']''"

text \<open>
  A small world for the concrete runs below: problem 1 is a two-sum problem with a time
  limit of 2000 ms and one test case; the executor and the test-case table are the
  parameters.
\<close>

definition sample_problem :: problem where
  "sample_problem =
     \<lparr> difficulty = ''easy'', code_tag = Some ''two-sum'', time_limit = Some 2000,
       memory_limit = Some 128, time_complexity = ''O(n)'' \<rparr>"

definition sample_tests :: "test_case list" where
  "sample_tests = [\<lparr> tc_input = ''[2,7,11,15]'' @ [CHR 0x0A] @ ''9'', expected_output = ''[0,1]'' \<rparr>]"

definition sample_env :: "test_case list \<Rightarrow> execution \<Rightarrow> env" where
  "sample_env tests run =
     \<lparr> findProblem = (\<lambda>i. if i = 1 then Some sample_problem else None),
       findTestCases = (\<lambda>i. if i = 1 then tests else []),
       runCodeInLanguage = (\<lambda>c l i t. Inr run),
       judgeSeconds = 3, random = 1 / 2, clock = 0 \<rparr>"

definition empty_world :: world where
  "empty_world = \<lparr> submissions = [], solutions = [], statistics = Map.empty, executor_calls = [] \<rparr>"

definition difference_line :: "nat \<Rightarrow> char \<Rightarrow> char \<Rightarrow> string" where
  "difference_line i x y =
     ''- First difference at position '' @ dec i @ '': expected '' @ [CHR 0x27, x, CHR 0x27]
       @ '', got '' @ [CHR 0x27, y, CHR 0x27] @ [CHR 0x0A]"






text \<open>
  \<open>enough f n\<close>: a result that the parser \<open>f\<close> returns with fuel \<open>n\<close> leaves a shorter
  rest and is returned with any fuel of at least the number of characters consumed.
\<close>

definition enough :: "(nat \<Rightarrow> string \<Rightarrow> ('a \<times> string) option) \<Rightarrow> nat \<Rightarrow> bool" where
  "enough f n \<longleftrightarrow>
     (\<forall>s v r. f n s = Some (v, r) \<longrightarrow>
        length r < length s \<and> (\<forall>m. length s - length r \<le> m \<longrightarrow> f m s = Some (v, r)))"

declare dec.simps [simp del]

section \<open>Decimal numerals and the pair pattern\<close>

lemma of_char_digit [simp]: "d < 10 \<Longrightarrow> (of_char (char_of (48 + d :: nat)) :: nat) = 48 + d"
  by (simp add: of_char_of)

lemma is_digit_char_of [simp]: "d < 10 \<Longrightarrow> is_digit (char_of (48 + d :: nat))"
  by (simp add: is_digit_def)

lemma digit_val_char_of [simp]: "d < 10 \<Longrightarrow> digit_val (char_of (48 + d :: nat)) = d"
  by (simp add: digit_val_def)

lemma dec_nonempty [simp]: "dec n \<noteq> []"
  by (subst dec.simps) simp

lemma dec_digits [simp]: "list_all is_digit (dec n)"
  by (induction n rule: dec.induct) (subst dec.simps, simp)

lemma digits_val_snoc: "digits_val (ds @ [c]) = 10 * digits_val ds + digit_val c"
  by (simp add: digits_val_def)

lemma digits_val_dec [simp]: "digits_val (dec n) = n"
  by (induction n rule: dec.induct) (subst dec.simps, simp add: digits_val_snoc digits_val_def)

lemma dec_0 [simp]: "dec 0 = ''0''"
  by (subst dec.simps) (simp add: char_of_eq_iff)

lemma hd_dec_zero: "hd (dec n) = CHR ''0'' \<Longrightarrow> n = 0"
proof (induction n rule: dec.induct)
  case (1 n)
  show ?case
  proof (cases "n < 10")
    case True
    with "1.prems" show ?thesis
      by (subst (asm) dec.simps) (simp add: char_of_eq_iff take_bit_eq_mod)
  next
    case False
    with "1.prems" have "hd (dec (n div 10)) = CHR ''0''"
      by (subst (asm) dec.simps) simp
    with "1.IH" False have "n div 10 = 0" by simp
    with False show ?thesis by simp
  qed
qed

lemma digit_not_space: "is_digit c \<Longrightarrow> \<not> is_space c"
  by (auto simp: is_digit_def is_space_def)

lemma digit_not_json_ws: "is_digit c \<Longrightarrow> \<not> is_json_ws c"
  by (auto simp: is_digit_def is_json_ws_def)

lemma dec_cons: "\<exists>d ds. dec n = d # ds \<and> is_digit d"
proof -
  obtain d ds where "dec n = d # ds" using dec_nonempty [of n] by (cases "dec n") auto
  moreover from this dec_digits [of n] have "is_digit d" by simp
  ultimately show ?thesis by blast
qed

lemma takeWhile_dec: "r = [] \<or> \<not> is_digit (hd r) \<Longrightarrow> takeWhile is_digit (dec n @ r) = dec n"
  using dec_digits [of n] by (cases r) (auto simp: list_all_iff takeWhile_append2 )

lemma dropWhile_dec: "r = [] \<or> \<not> is_digit (hd r) \<Longrightarrow> dropWhile is_digit (dec n @ r) = r"
  using dec_digits [of n] by (cases r) (auto simp: list_all_iff dropWhile_append2)

lemma dropWhile_space_dec [simp]: "dropWhile is_space (dec n @ r) = dec n @ r"
  using dec_cons [of n] by (auto simp: digit_not_space)

lemma skip_ws_dec [simp]: "skip_ws (dec n @ r) = dec n @ r"
  using dec_cons [of n] by (auto simp: digit_not_json_ws skip_ws_def)

lemma json_ws_space: "is_json_ws c \<Longrightarrow> is_space c"
  by (auto simp: is_json_ws_def is_space_def)

lemma json_ws_not_digit: "is_json_ws c \<Longrightarrow> \<not> is_digit c"
  by (auto simp: is_json_ws_def is_digit_def)

lemma dropWhile_space_ws:
  assumes "list_all is_json_ws w" and "r = [] \<or> \<not> is_space (hd r)"
  shows "dropWhile is_space (w @ r) = r"
proof -
  have "dropWhile is_space (w @ r) = dropWhile is_space r"
    using assms(1) by (intro dropWhile_append2) (auto simp: list_all_iff json_ws_space)
  also have "\<dots> = r" using assms(2) by (cases r) auto
  finally show ?thesis .
qed

lemma skip_ws_ws:
  assumes "list_all is_json_ws w" and "r = [] \<or> \<not> is_json_ws (hd r)"
  shows "skip_ws (w @ r) = r"
proof -
  have "dropWhile is_json_ws (w @ r) = dropWhile is_json_ws r"
    using assms(1) by (intro dropWhile_append2) (auto simp: list_all_iff)
  also have "\<dots> = r" using assms(2) by (cases r) auto
  finally show ?thesis by (simp add: skip_ws_def)
qed

lemma hd_ws_sep:
  assumes "list_all is_json_ws w" and "\<not> is_digit c"
  shows "\<not> is_digit (hd (w @ c # r))"
  using assms by (cases w) (auto simp: json_ws_not_digit)

lemma hd_dec_not_space: "\<not> is_space (hd (dec n @ r))"
  using dec_cons [of n] by (auto simp: digit_not_space)

lemma not_space_sep [simp]: "\<not> is_space (CHR '','')" "\<not> is_space (CHR '']'')"
  "\<not> is_json_ws (CHR '','')" "\<not> is_json_ws (CHR '']'')"
  by (simp_all add: is_space_def is_json_ws_def)

lemma match_pair_at_pair_text_ws:
  assumes "list_all is_json_ws w1" "list_all is_json_ws w2" "list_all is_json_ws w3"
    "list_all is_json_ws w4"
  shows "match_pair_at (pair_text_ws w1 a w2 w3 b w4) = Some (pair_text_ws w1 a w2 w3 b w4)"
proof -
  let ?t4 = "w4 @ '']''"
  let ?t3 = "w3 @ dec b @ ?t4"
  let ?t2 = "w2 @ CHR '','' # ?t3"
  let ?t1 = "w1 @ dec a @ ?t2"
  have r1: "dropWhile is_space ?t1 = dec a @ ?t2"
    by (rule dropWhile_space_ws [OF assms(1)]) (simp only: hd_dec_not_space simp_thms)
  have nd2: "?t2 = [] \<or> \<not> is_digit (hd ?t2)" using hd_ws_sep [OF assms(2), of "CHR '',''"] by (simp add: is_digit_def)
  have d1: "takeWhile is_digit (dec a @ ?t2) = dec a" by (rule takeWhile_dec [OF nd2])
  have e1: "dropWhile is_digit (dec a @ ?t2) = ?t2" by (rule dropWhile_dec [OF nd2])
  have r2: "dropWhile is_space ?t2 = CHR '','' # ?t3"
    by (rule dropWhile_space_ws [OF assms(2)]) simp
  have r3: "dropWhile is_space ?t3 = dec b @ ?t4"
    by (rule dropWhile_space_ws [OF assms(3)]) (simp only: hd_dec_not_space simp_thms)
  have nd4: "?t4 = [] \<or> \<not> is_digit (hd ?t4)" using hd_ws_sep [OF assms(4), of "CHR '']''" "[]"] by (simp add: is_digit_def)
  have d2: "takeWhile is_digit (dec b @ ?t4) = dec b" by (rule takeWhile_dec [OF nd4])
  have e2: "dropWhile is_digit (dec b @ ?t4) = ?t4" by (rule dropWhile_dec [OF nd4])
  have r4: "dropWhile is_space ?t4 = '']''"
    by (rule dropWhile_space_ws [OF assms(4)]) simp
  have "match_pair_at (CHR ''['' # ?t1) = Some (CHR ''['' # ?t1)"
    unfolding match_pair_at_def by (simp add: r1 d1 e1 r2 r3 d2 e2 r4 Let_def)
  then show ?thesis by (simp add: pair_text_ws_def)
qed

lemma match_pair_pair_text_ws:
  assumes "list_all is_json_ws w1" "list_all is_json_ws w2" "list_all is_json_ws w3"
    "list_all is_json_ws w4"
  shows "match_pair (pair_text_ws w1 a w2 w3 b w4) = Some (pair_text_ws w1 a w2 w3 b w4)"
proof -
  obtain c cs where c: "pair_text_ws w1 a w2 w3 b w4 = c # cs"
    by (simp add: pair_text_ws_def)
  show ?thesis
    using match_pair_at_pair_text_ws [OF assms, of a b] by (simp add: c)
qed

lemma str_includes_iff: "str_includes s sub \<longleftrightarrow> sublist sub s"
  by (induction s) (auto simp: sublist_Cons_right)

lemma includes_brackets_ws:
  "str_includes (pair_text_ws w1 a w2 w3 b w4) ''[''
   \<and> str_includes (pair_text_ws w1 a w2 w3 b w4) '']''"
proof -
  have "sublist ''['' ([] @ ''['' @ (w1 @ dec a @ w2 @ '','' @ w3 @ dec b @ w4 @ '']''))"
    by (rule sublist_appendI)
  moreover have "sublist '']'' ((''['' @ w1 @ dec a @ w2 @ '','' @ w3 @ dec b @ w4) @ '']'' @ [])"
    by (rule sublist_appendI)
  ultimately show ?thesis by (simp add: str_includes_iff pair_text_ws_def)
qed


lemma is_digit_comma [simp]: "\<not> is_digit (CHR '','')" "\<not> is_digit (CHR '']'')"
  by (simp_all add: is_digit_def)

lemma skip_ws_digit: "is_digit d \<Longrightarrow> skip_ws (d # r) = d # r"
  by (simp add: skip_ws_def digit_not_json_ws)

lemma skip_ws_punct [simp]:
  "skip_ws (CHR ''['' # r) = CHR ''['' # r"
  "skip_ws (CHR '','' # r) = CHR '','' # r"
  "skip_ws (CHR '']'' # r) = CHR '']'' # r"
  "skip_ws [] = []"
  by (simp_all add: skip_ws_def is_json_ws_def)

lemma json_number_dec_ws:
  assumes "r \<noteq> []" "hd r = CHR '','' \<or> hd r = CHR '']'' \<or> is_json_ws (hd r)"
  shows "json_number (dec n @ r) = Some (of_nat n, r)"
proof -
  obtain d ds where d: "dec n = d # ds" "is_digit d" using dec_cons by blast
  from assms have nd: "\<not> is_digit (hd r)" by (auto simp: json_ws_not_digit)
  have z: "\<not> (hd (dec n) = CHR ''0'' \<and> 1 < length (dec n))"
    using hd_dec_zero [of n] by auto
  have m: "d \<noteq> CHR ''-''" using d(2) by (auto simp: is_digit_def)
  have tw: "takeWhile is_digit (dec n @ r) = dec n" and dw: "dropWhile is_digit (dec n @ r) = r"
    using nd by (simp_all add: takeWhile_dec dropWhile_dec)
  obtain c cs where r: "r = c # cs" using assms(1) by (cases r) auto
  with assms(2) have c: "c = CHR '','' \<or> c = CHR '']'' \<or> is_json_ws c" by simp
  have e: "ExponentPart r = Some (0, r)"
    using c by (auto simp: ExponentPart_def r is_json_ws_def)
  have dot: "hd r \<noteq> CHR ''.''" using assms(2) by (auto simp: is_json_ws_def)
  have neg: "\<not> (dec n @ r \<noteq> [] \<and> hd (dec n @ r) = CHR ''-'')" using d m by simp
  show ?thesis
    unfolding json_number_def using neg z dot
    by (simp add: tw dw e pow10_def Let_def assms(1))
qed

lemma json_value_number_ws:
  assumes "list_all is_json_ws w" "r \<noteq> []"
    "hd r = CHR '','' \<or> hd r = CHR '']'' \<or> is_json_ws (hd r)"
  shows "json_value (Suc k) (w @ dec n @ r) = Some (JNum (Finite (of_nat n)), r)"
proof -
  obtain d ds where d: "dec n = d # ds" "is_digit d" using dec_cons by blast
  have "skip_ws (w @ dec n @ r) = dec n @ r"
    by (rule skip_ws_ws [OF assms(1)]) (simp add: d digit_not_json_ws)
  then have sk: "skip_ws (w @ dec n @ r) = d # (ds @ r)" using d by simp
  have nb: "d \<noteq> CHR ''[''" "d \<noteq> CHR ''{''" "d \<noteq> CHR 0x22"
    "d \<noteq> CHR ''t''" "d \<noteq> CHR ''f''" "d \<noteq> CHR ''n''"
    using d(2) by (auto simp: is_digit_def)
  have "json_number (d # ds @ r) = Some (of_nat n, r)"
    using json_number_dec_ws [OF assms(2,3), of n] d by simp
  then show ?thesis using nb by (simp add: sk)
qed

lemma hd_ws_sep_cases:
  assumes "list_all is_json_ws w"
  shows "hd (w @ c # r) = c \<or> is_json_ws (hd (w @ c # r))"
  using assms by (cases w) auto

lemma JSON_parse_pair_text_ws:
  assumes "list_all is_json_ws w1" "list_all is_json_ws w2" "list_all is_json_ws w3"
    "list_all is_json_ws w4"
  shows "JSON_parse (pair_text_ws w1 a w2 w3 b w4)
           = Some (JArr [JNum (Finite (of_nat a)), JNum (Finite (of_nat b))])"
proof -
  let ?t4 = "w4 @ '']''"
  let ?t3 = "w3 @ dec b @ ?t4"
  let ?t2 = "w2 @ CHR '','' # ?t3"
  let ?t1 = "w1 @ dec a @ ?t2"
  obtain d ds where d: "dec a = d # ds" "is_digit d" using dec_cons by blast
  have len: "\<exists>k. length (pair_text_ws w1 a w2 w3 b w4) = Suc (Suc (Suc k))"
    using dec_nonempty [of a] dec_nonempty [of b]
    by (cases "dec a"; cases "dec b") (auto simp: pair_text_ws_def)
  then obtain k where k: "length (pair_text_ws w1 a w2 w3 b w4) = Suc (Suc (Suc k))" by blast
  have nclose: "d \<noteq> CHR '']''" using d(2) by (auto simp: is_digit_def)
  have v1: "json_value (Suc (Suc k)) (w1 @ dec a @ ?t2) = Some (JNum (Finite (of_nat a)), ?t2)"
    using hd_ws_sep_cases [OF assms(2), of "CHR '',''" ?t3]
    by (intro json_value_number_ws [OF assms(1)]) auto
  have v2: "json_value (Suc k) (w3 @ dec b @ ?t4) = Some (JNum (Finite (of_nat b)), ?t4)"
    using hd_ws_sep_cases [OF assms(4), of "CHR '']''" "[]"]
    by (intro json_value_number_ws [OF assms(3)]) auto
  have s4: "skip_ws ?t4 = '']''" by (rule skip_ws_ws [OF assms(4)]) simp
  have s2: "skip_ws ?t2 = CHR '','' # ?t3" by (rule skip_ws_ws [OF assms(2)]) simp
  have s1: "skip_ws ?t1 = d # (ds @ ?t2)"
    using skip_ws_ws [OF assms(1), of "dec a @ ?t2"] d by (simp add: digit_not_json_ws)
  have e2: "json_elements (Suc (Suc k)) ?t3 = Some ([JNum (Finite (of_nat b))], [])"
    using v2 s4 by simp
  have e1: "json_elements (Suc (Suc (Suc k))) ?t1
              = Some ([JNum (Finite (of_nat a)), JNum (Finite (of_nat b))], [])"
    using v1 e2 s2 by simp
  have "json_value (Suc (Suc (Suc (Suc k)))) (CHR ''['' # ?t1)
          = Some (JArr [JNum (Finite (of_nat a)), JNum (Finite (of_nat b))], [])"
    using e1 nclose s1 by simp
  then show ?thesis
    using k by (simp add: JSON_parse_def pair_text_ws_def)
qed

lemma pair_text_is_pair_text_ws: "pair_text a b = pair_text_ws [] a [] [] b []"
  by (simp add: pair_text_def pair_text_ws_def)

lemma JSON_parse_pair_text:
  "JSON_parse (pair_text a b) = Some (JArr [JNum (Finite (of_nat a)), JNum (Finite (of_nat b))])"
  unfolding pair_text_is_pair_text_ws by (rule JSON_parse_pair_text_ws) simp_all

lemma Number_toString_nat:
  "n < 10 ^ 21 \<Longrightarrow> Number_toString (Finite (of_nat n)) = dec n"
  by (cases "n = 0") (simp_all add: Number_toString_def Number_toString_pos_def)

lemma JSON_stringify_pair:
  "a < 10 ^ 21 \<Longrightarrow> b < 10 ^ 21 \<Longrightarrow>
   JSON_stringify (JArr [JNum (Finite (of_nat a)), JNum (Finite (of_nat b))]) = pair_text a b"
  by (simp add: Number_toString_nat pair_text_def)

lemma sort_pair_nat:
  "sort_pair (Finite (of_nat a)) (Finite (of_nat b))
     = [Finite (of_nat (min a b)), Finite (of_nat (max a b))]"
  by (auto simp: sort_pair_def num_less_def min_def max_def)

lemma pair_text_ws_nonempty [simp]: "pair_text_ws w1 a w2 w3 b w4 \<noteq> []"
  by (simp add: pair_text_ws_def)

lemma normalizeOutput_pair_text_ws:
  assumes "a < 10 ^ 21" "b < 10 ^ 21"
    and "list_all is_json_ws w1" "list_all is_json_ws w2" "list_all is_json_ws w3"
    "list_all is_json_ws w4"
  shows "normalizeOutput (pair_text_ws w1 a w2 w3 b w4) language ''two-sum''
           = Inr (pair_text (min a b) (max a b))"
proof -
  let ?t = "pair_text_ws w1 a w2 w3 b w4"
  have i: "str_includes ?t ''[''" "str_includes ?t '']''"
    using includes_brackets_ws by simp_all
  have m: "match_pair ?t = Some ?t"
    by (rule match_pair_pair_text_ws [OF assms(3-6)])
  have p: "JSON_parse_throw ?t
             = Inr (JArr [JNum (Finite (of_nat a)), JNum (Finite (of_nat b))])"
    by (simp add: JSON_parse_throw_def JSON_parse_pair_text_ws [OF assms(3-6)])
  have s: "JSON_stringify (JArr (map JNum (sort_pair (Finite (of_nat a)) (Finite (of_nat b)))))
             = pair_text (min a b) (max a b)"
    using assms(1,2) by (simp only: sort_pair_nat list.map) (rule JSON_stringify_pair, simp_all)
  have "normalizeTwoSumOutput_body ?t = Inr (pair_text (min a b) (max a b))"
    unfolding normalizeTwoSumOutput_body_def by (simp add: i m p s del: JSON_stringify.simps)
  then show ?thesis
    by (simp add: normalizeOutput_def normalizeTwoSumOutput_def try_catch_def)
qed

lemma compareOutputs_pair_text_refl:
  "compareOutputs (pair_text m n) (pair_text m n) ''two-sum'' = Inr \<lparr> passed = True, diff = None \<rparr>"
proof -
  have p: "JSON_parse_throw (pair_text m n)
             = Inr (JArr [JNum (Finite (of_nat m)), JNum (Finite (of_nat n))])"
    by (simp add: JSON_parse_throw_def JSON_parse_pair_text)
  show ?thesis
    by (simp add: compareOutputs_def compareTwoSumOutputs_def compareTwoSumOutputs_body_def
        parse_actual_def try_catch_def p compare_parsed_def Let_def)
qed

lemma pair_text_ws_examples:
  "pair_text_ws [] 0 [] '' '' 1 [] = ''[0, 1]''" "pair_text_ws [] 1 [] [] 0 [] = ''[1,0]''"
  by code_simp+


section \<open>Lower-casing and whitespace removal\<close>

lemma of_char_lower: "n \<le> 222 \<Longrightarrow> (of_char (char_of (n + 32 :: nat)) :: nat) = n + 32"
  by (simp add: of_char_of)

lemma toLowerCase_char_idem: "toLowerCase_char (toLowerCase_char c) = toLowerCase_char c"
  by (auto simp: toLowerCase_char_def Let_def of_char_lower)

lemma is_space_toLowerCase_char: "is_space (toLowerCase_char c) = is_space c"
  by (auto simp: toLowerCase_char_def Let_def of_char_lower is_space_def)

lemma normalizeGenericOutput_idem:
  "normalizeGenericOutput (normalizeGenericOutput x) = normalizeGenericOutput x"
  by (simp add: normalizeGenericOutput_def toLowerCase_def remove_whitespace_def filter_map o_def
      is_space_toLowerCase_char toLowerCase_char_idem)

section \<open>The limit messages\<close>

lemma dec_no_L: "CHR ''L'' \<notin> set (dec n)"
  using dec_digits [of n] by (auto simp: list_all_iff is_digit_def)

lemma shape_no_L:
  assumes "CHR ''L'' \<notin> set ds" and "CHR ''L'' \<notin> set es"
  shows "CHR ''L'' \<notin> set
    (if c1 then ds @ replicate a (CHR ''0'')
     else if c2 then take b ds @ ''.'' @ drop b ds
     else if c3 then ''0.'' @ replicate c (CHR ''0'') @ ds
     else (if c4 then ds else take 1 ds @ ''.'' @ drop 1 ds)
          @ ''e'' @ (if c5 then ''+'' else ''-'') @ es)"
  using assms by (auto dest: in_set_takeD in_set_dropD)

lemma Number_toString_pos_no_L: "CHR ''L'' \<notin> set (Number_toString_pos x)"
proof (cases "of_int \<lfloor>x\<rfloor> = x \<and> x < 10 ^ 21")
  case True
  then have "Number_toString_pos x = dec (nat \<lfloor>x\<rfloor>)"
    unfolding Number_toString_pos_def by (simp only: if_True simp_thms)
  then show ?thesis by (simp only: dec_no_L not_False_eq_True)
next
  case False
  then show ?thesis
    unfolding Number_toString_pos_def Let_def
    by (simp only: if_False) (rule shape_no_L; rule dec_no_L)
qed

lemma toFixed2_no_L: "CHR ''L'' \<notin> set (toFixed2 x)"
proof (cases "10 ^ 21 \<le> \<bar>x\<bar>")
  case True
  then have "toFixed2 x = Number_toString (Finite x)"
    unfolding toFixed2_def by (simp only: if_True)
  then show ?thesis
    using Number_toString_pos_no_L [of x] Number_toString_pos_no_L [of "- x"]
    by (simp add: Number_toString_def)
next
  case False
  then have "toFixed2 x = (if x < 0 then ''-'' else []) @ dec (nat \<lfloor>\<bar>x\<bar> * 100 + 1 / 2\<rfloor> div 100)
                @ ''.'' @ pad2 (nat \<lfloor>\<bar>x\<bar> * 100 + 1 / 2\<rfloor> mod 100)"
    unfolding toFixed2_def Let_def by (simp only: if_False)
  then show ?thesis
    by (simp add: dec_no_L pad2_def)
qed

lemma includes_needs_L: "CHR ''L'' \<notin> set s \<Longrightarrow> \<not> str_includes s ''Time Limit''"
proof
  assume a: "CHR ''L'' \<notin> set s" and "str_includes s ''Time Limit''"
  then have "sublist ''Time Limit'' s" by (simp add: str_includes_iff)
  then have "set ''Time Limit'' \<subseteq> set s" by (rule set_mono_sublist)
  with a show False by simp
qed

lemma limit_reason_never_says_Time_Limit:
  assumes "reason (checkPerformanceLimits t1 m1 t2 m2) = Some msg"
  shows "\<not> str_includes msg ''Time Limit''"
proof -
  have "CHR ''L'' \<notin> set msg"
    using assms toFixed2_no_L
    by (auto simp: checkPerformanceLimits_def split: if_splits)
  then show ?thesis by (rule includes_needs_L)
qed

section \<open>The two diffs\<close>

lemma first_difference_lcp:
  "first_difference k xs ys =
     (let i = length (longest_common_prefix xs ys)
      in if i < length xs \<and> i < length ys then difference_line (k + i) (xs ! i) (ys ! i) else [])"
  by (induction k xs ys rule: first_difference.induct) (simp_all add: difference_line_def Let_def)

lemma Set_of_set: "set (foldl (\<lambda>acc x. if x \<in> set acc then acc else acc @ [x]) a xs) = set a \<union> set xs"
  by (induction xs arbitrary: a) auto

lemma Set_of_distinct:
  "distinct a \<Longrightarrow> distinct (foldl (\<lambda>acc x. if x \<in> set acc then acc else acc @ [x]) a xs)"
  by (induction xs arbitrary: a) auto

lemma ov_missing_is_set_difference:
  "set (filter (\<lambda>item. item \<notin> set (Set_of bs)) (Set_of as)) = set as - set bs
   \<and> distinct (filter (\<lambda>item. item \<notin> set (Set_of bs)) (Set_of as))"
  by (auto simp: Set_of_def Set_of_set Set_of_distinct)

section \<open>The plagiarism score\<close>


lemma Number_times_finite:
  assumes "round_to_double (a * b) = x" and "\<bar>x\<bar> < 2 ^ 1024"
  shows "Number_times a b = Finite x"
  using assms by (auto simp: Number_times_def pow2_def Let_def)

lemma percent_rounds_the_double_product:
  "percent (Some (round_to_double (575 / 1000))) = ''57''"
proof -
  have r: "round_to_double (round_to_double (575 / 1000) * 100) = 8092405580431359 / 140737488355328"
    by code_simp
  have t: "Number_times (round_to_double (575 / 1000)) 100 = Finite (8092405580431359 / 140737488355328)"
    by (rule Number_times_finite [OF r]) simp
  have m: "int_toString (Math_round (8092405580431359 / 140737488355328)) = ''57''"
    by code_simp
  show ?thesis unfolding percent_def option.case t jsnum.case by (rule m)
qed

lemma percent_of_the_score: "percent (Some (score (detectPlagiarism code language problemId))) = ''10''"
proof -
  have r: "round_to_double (round_to_double (1 / 10) * 100) = 10"
    by code_simp
  have t: "Number_times (round_to_double (1 / 10)) 100 = Finite 10"
    by (rule Number_times_finite [OF r]) simp
  have m: "int_toString (Math_round 10) = ''10''"
    by code_simp
  have s: "score (detectPlagiarism code language problemId) = round_to_double (1 / 10)"
    by (simp add: detectPlagiarism_def)
  show ?thesis unfolding s percent_def option.case t jsnum.case by (rule m)
qed

section \<open>What a judged run returns\<close>








section \<open>Two more facts about the judge\<close>

lemma missing_problem_fails_submission:
  assumes "findProblem env problemId = None"
  shows "submitSolution env w userId problemId code language
           = (\<lparr> sr_success = False, sr_submission = None, sr_executionResult = None,
                sr_message = Some ''Failed to submit solution: Problem not found'',
                pointsEarned = None, improvementSuggestions = None \<rparr>, w)"
  using assms by (simp add: submitSolution_def message_def)

lemma compilation_failure_is_stored_without_running:
  assumes "\<not> c_success (compileCode code language)" and "findProblem env problemId = Some prob"
  shows "\<exists>r w'. submitSolution env w userId problemId code language = (r, w')
           \<and> \<not> sr_success r \<and> executor_calls w' = executor_calls w
           \<and> map sub_status (submissions w') = map sub_status (submissions w) @ [''Compilation Error'']
           \<and> solutions w' = solutions w"
  using assms
  by (simp add: submitSolution_def executeCode_def validateTestCases_def no_tests_def Let_def)

section \<open>The fuel of the JSON parser is enough\<close>

text \<open>
  If the parser returns a value with some fuel, it returns the same value with the fuel
  \<open>JSON_parse\<close> gives it: a text that \<open>JSON_parse\<close> rejects is rejected with any fuel.
\<close>

lemma length_dropWhile_less: "xs \<noteq> [] \<Longrightarrow> P (hd xs) \<Longrightarrow> length (dropWhile P xs) < length xs"
  by (cases xs) (auto simp: le_imp_less_Suc length_dropWhile_le)

lemma takeWhile_nonempty_drop:
  "takeWhile P xs \<noteq> [] \<Longrightarrow> length (dropWhile P xs) < length xs"
  by (cases xs) (auto simp: le_imp_less_Suc length_dropWhile_le split: if_splits)

lemma strip_sign_length: "strip_sign s = (b, r) \<Longrightarrow> length r \<le> length s"
  by (auto simp: strip_sign_def split: list.splits if_splits)

lemma ExponentPart_length: "ExponentPart r = Some (e, r') \<Longrightarrow> length r' \<le> length r"
proof -
  assume a: "ExponentPart r = Some (e, r')"
  show ?thesis
  proof (cases r)
    case Nil
    with a show ?thesis by (simp add: ExponentPart_def)
  next
    case (Cons c r1)
    obtain b r2 where s: "strip_sign r1 = (b, r2)" by (cases "strip_sign r1")
    from strip_sign_length [OF s] have "length r2 \<le> length r1" .
    moreover have "length (dropWhile is_digit r2) \<le> length r2" by (rule length_dropWhile_le)
    ultimately show ?thesis
      using a Cons s by (auto simp: ExponentPart_def Let_def split: if_splits)
  qed
qed

lemma json_number_length:
  assumes "json_number s = Some (x, r)"
  shows "length r < length s"
proof -
  define s1 where "s1 = (if s \<noteq> [] \<and> hd s = CHR ''-'' then tl s else s)"
  have s1: "length s1 \<le> length s" by (simp add: s1_def)
  define r1 where "r1 = dropWhile is_digit s1"
  from assms have ne: "takeWhile is_digit s1 \<noteq> []"
    by (auto simp: json_number_def s1_def Let_def split: if_splits)
  then have l1: "length r1 < length s1" unfolding r1_def by (rule takeWhile_nonempty_drop)
  have tl_le: "length (dropWhile is_digit (tl r1)) \<le> length r1"
    by (metis length_dropWhile_le length_tl diff_le_self le_trans)
  from assms obtain fp r2 e where
    f: "(r2 = r1 \<or> r2 = dropWhile is_digit (tl r1))" and ex: "ExponentPart r2 = Some (e, r)"
    by (auto simp: json_number_def s1_def r1_def Let_def split: if_splits option.splits)
  from f tl_le have "length r2 \<le> length r1" by auto
  with ExponentPart_length [OF ex] l1 s1 show ?thesis by simp
qed

lemma json_string_length: "json_string s = Some (x, r) \<Longrightarrow> length r < length s"
proof (induction "length s" arbitrary: s x r rule: less_induct)
  case less
  have IH: "\<And>s' x' r'. json_string s' = Some (x', r') \<Longrightarrow> length s' < length s \<Longrightarrow> length r' < length s'"
    using less.hyps by blast
  show ?case
  proof (cases s)
    case Nil
    with less.prems show ?thesis by simp
  next
    case (Cons c t)
    with less.prems show ?thesis
      by (auto split: if_splits list.splits option.splits dest!: IH)
  qed
qed


declare json_string.simps [simp del]

lemma enoughD:
  assumes "enough f n" "f n s = Some (v, r)"
  shows "length r < length s" and "\<And>m. length s - length r \<le> m \<Longrightarrow> f m s = Some (v, r)"
  using assms unfolding enough_def by blast+

lemma skip_ws_length: "length (skip_ws s) \<le> length s"
  by (simp add: skip_ws_def length_dropWhile_le)

lemma skip_ws_Cons_length: "skip_ws s = c # t \<Longrightarrow> Suc (length t) \<le> length s"
  using skip_ws_length [of s] by simp

lemma Suc_fuel: "Suc k \<le> m \<Longrightarrow> \<exists>m'. m = Suc m' \<and> k \<le> m'"
  by (cases m) auto

lemma enough_json_value_step:
  assumes B: "enough json_elements n" and C: "\<And>obj. enough (\<lambda>k. json_members k obj) n"
  shows "enough json_value (Suc n)"
  unfolding enough_def
proof (intro allI impI)
  fix s v r
  assume a: "json_value (Suc n) s = Some (v, r)"
  from a obtain c t where sk: "skip_ws s = c # t" by (cases "skip_ws s") auto
  note ls = skip_ws_Cons_length [OF sk]
  have lt: "length (tl (skip_ws t)) \<le> length t"
    using skip_ws_length [of t] by (simp add: le_trans [OF diff_le_self])
  consider
      (arr0) "c = CHR ''[''" "skip_ws t \<noteq> [] \<and> hd (skip_ws t) = CHR '']''"
    | (arr) "c = CHR ''[''" "\<not> (skip_ws t \<noteq> [] \<and> hd (skip_ws t) = CHR '']'')"
    | (obj0) "c \<noteq> CHR ''[''" "c = CHR ''{''" "skip_ws t \<noteq> [] \<and> hd (skip_ws t) = CHR ''}''"
    | (obj) "c \<noteq> CHR ''[''" "c = CHR ''{''" "\<not> (skip_ws t \<noteq> [] \<and> hd (skip_ws t) = CHR ''}'')"
    | (other) "c \<noteq> CHR ''[''" "c \<noteq> CHR ''{''"
    by blast
  then show "length r < length s \<and> (\<forall>m. length s - length r \<le> m \<longrightarrow> json_value m s = Some (v, r))"
  proof cases
    case arr0
    with a sk have r: "r = tl (skip_ws t)" "v = JArr []" by auto
    have l: "length r < length s" using r lt ls by simp
    have "json_value m s = Some (v, r)" if "length s - length r \<le> m" for m
    proof -
      from that l obtain m' where "m = Suc m'" by (cases m) auto
      then show ?thesis using arr0 sk r by simp
    qed
    with l show ?thesis by blast
  next
    case arr
    with a sk obtain vs where e: "json_elements n t = Some (vs, r)" "v = JArr vs" by auto
    note d = enoughD [OF B e(1)]
    have l: "length r < length s" using d(1) ls by simp
    have "json_value m s = Some (v, r)" if "length s - length r \<le> m" for m
    proof -
      from that d(1) ls have "Suc (length t - length r) \<le> m" by simp
      from Suc_fuel [OF this] obtain m' where m: "m = Suc m'" "length t - length r \<le> m'" by blast
      from d(2) [OF m(2)] show ?thesis using arr sk e(2) m(1) by auto
    qed
    with l show ?thesis by blast
  next
    case obj0
    with a sk have r: "r = tl (skip_ws t)" "v = JObj []" by auto
    have l: "length r < length s" using r lt ls by simp
    have "json_value m s = Some (v, r)" if "length s - length r \<le> m" for m
    proof -
      from that l obtain m' where "m = Suc m'" by (cases m) auto
      then show ?thesis using obj0 sk r by simp
    qed
    with l show ?thesis by blast
  next
    case obj
    with a sk obtain ms where e: "json_members n [] t = Some (ms, r)" "v = JObj ms" by auto
    note d = enoughD [OF C e(1)]
    have l: "length r < length s" using d(1) ls by simp
    have "json_value m s = Some (v, r)" if "length s - length r \<le> m" for m
    proof -
      from that d(1) ls have "Suc (length t - length r) \<le> m" by simp
      from Suc_fuel [OF this] obtain m' where m: "m = Suc m'" "length t - length r \<le> m'" by blast
      from d(2) [OF m(2)] show ?thesis using obj sk e(2) m(1) by auto
    qed
    with l show ?thesis by blast
  next
    case other
    have eq: "json_value (Suc k) s = json_value (Suc n) s" for k
      using other sk by simp
    have l': "length r < length (c # t)"
    proof (cases "c = CHR 0x22")
      case True
      with a other sk obtain x where "json_string t = Some (x, r)" by auto
      from json_string_length [OF this] show ?thesis by simp
    next
      case False
      note nq = this
      show ?thesis
      proof (cases "prefix ''true'' (c # t) \<or> prefix ''false'' (c # t) \<or> prefix ''null'' (c # t)")
        case True
        with a other sk nq have "r = drop 4 (c # t) \<or> r = drop 5 (c # t)"
          by (auto split: if_splits)
        then show ?thesis by auto
      next
        case False
        with a other sk nq obtain x where "json_number (c # t) = Some (x, r)"
          by (auto split: if_splits)
        from json_number_length [OF this] show ?thesis .
      qed
    qed
    have l: "length r < length s" using l' ls by simp
    have "json_value m s = Some (v, r)" if "length s - length r \<le> m" for m
    proof -
      from that l obtain m' where "m = Suc m'" by (cases m) auto
      then show ?thesis using eq a by simp
    qed
    with l show ?thesis by blast
  qed
qed


lemma enough_json_elements_step:
  assumes A: "enough json_value n" and B: "enough json_elements n"
  shows "enough json_elements (Suc n)"
  unfolding enough_def
proof (intro allI impI)
  fix s vs r
  assume a: "json_elements (Suc n) s = Some (vs, r)"
  from a obtain v r1 where v: "json_value n s = Some (v, r1)"
    by (cases "json_value n s") auto
  from a v obtain c r2 where sk: "skip_ws r1 = c # r2"
    by (cases "skip_ws r1") auto
  note dA = enoughD [OF A v]
  note ls = skip_ws_Cons_length [OF sk]
  show "length r < length s \<and> (\<forall>m. length s - length r \<le> m \<longrightarrow> json_elements m s = Some (vs, r))"
  proof (cases "c = CHR '',''")
    case True
    with a v sk obtain vs' where e: "json_elements n r2 = Some (vs', r)" "vs = v # vs'" by auto
    note dB = enoughD [OF B e(1)]
    have l: "length r < length s" using dB(1) ls dA(1) by simp
    have "json_elements m s = Some (vs, r)" if "length s - length r \<le> m" for m
    proof -
      from that dB(1) ls dA(1) have "Suc (length s - length r - 1) \<le> m" by simp
      from Suc_fuel [OF this] obtain m' where m: "m = Suc m'" "length s - length r - 1 \<le> m'" by blast
      from m(2) dB(1) ls dA(1) have "length s - length r1 \<le> m'" "length r2 - length r \<le> m'" by simp_all
      from dA(2) [OF this(1)] dB(2) [OF this(2)] show ?thesis
        using True e(2) m(1) by (simp add: sk)
    qed
    with l show ?thesis by blast
  next
    case False
    with a v sk have r: "c = CHR '']''" "vs = [v]" "r = r2" by (auto split: if_splits)
    have l: "length r < length s" using r ls dA(1) by simp
    have "json_elements m s = Some (vs, r)" if "length s - length r \<le> m" for m
    proof -
      from that r ls dA(1) have "Suc (length s - length r1) \<le> m" by simp
      from Suc_fuel [OF this] obtain m' where m: "m = Suc m'" "length s - length r1 \<le> m'" by blast
      from dA(2) [OF m(2)] show ?thesis using False r m(1) by (simp add: sk)
    qed
    with l show ?thesis by blast
  qed
qed

lemma enough_json_members_step:
  assumes A: "enough json_value n" and C: "\<And>obj. enough (\<lambda>k. json_members k obj) n"
  shows "enough (\<lambda>k. json_members k obj) (Suc n)"
  unfolding enough_def
proof (intro allI impI)
  fix s ms r
  assume a: "json_members (Suc n) obj s = Some (ms, r)"
  from a obtain q t where sq: "skip_ws s = q # t" by (cases "skip_ws s") auto
  from a sq have q: "q = CHR 0x22" by (auto split: if_splits)
  from a sq q obtain k r1 where k: "json_string t = Some (k, r1)"
    by (cases "json_string t") auto
  from a sq q k obtain col r2 where sc: "skip_ws r1 = col # r2" by (cases "skip_ws r1") auto
  from a sq q k sc have col: "col = CHR '':''" by (auto split: if_splits)
  from a sq q k sc col obtain v r3 where v: "json_value n r2 = Some (v, r3)"
    by (cases "json_value n r2") auto
  from a sq q k sc col v obtain c r4 where se: "skip_ws r3 = c # r4" by (cases "skip_ws r3") auto
  note l1 = skip_ws_Cons_length [OF sq]
  note l2 = json_string_length [OF k]
  note l3 = skip_ws_Cons_length [OF sc]
  note dA = enoughD [OF A v]
  note l4 = skip_ws_Cons_length [OF se]
  show "length r < length s \<and> (\<forall>m. length s - length r \<le> m \<longrightarrow> json_members m obj s = Some (ms, r))"
  proof (cases "c = CHR '',''")
    case True
    with a v have e: "json_members n (CreateDataProperty obj k v) r4 = Some (ms, r)"
      by (simp add: sq q k sc col se)
    note dC = enoughD [OF C e]
    have l: "length r < length s" using dC(1) l1 l2 l3 l4 dA(1) by simp
    have "json_members m obj s = Some (ms, r)" if "length s - length r \<le> m" for m
    proof -
      from that dC(1) l1 l2 l3 l4 dA(1) have "Suc (length s - length r - 1) \<le> m" by simp
      from Suc_fuel [OF this] obtain m' where m: "m = Suc m'" "length s - length r - 1 \<le> m'" by blast
      from m(2) dC(1) l1 l2 l3 l4 dA(1)
      have "length r2 - length r3 \<le> m'" "length r4 - length r \<le> m'" by simp_all
      from dA(2) [OF this(1)] dC(2) [OF this(2)] show ?thesis
        using True m(1) by (simp add: sq q k sc col se)
    qed
    with l show ?thesis by blast
  next
    case False
    with a v have r: "c = CHR ''}''" "ms = CreateDataProperty obj k v" "r = r4"
      by (auto simp: sq q k sc col se split: if_splits)
    have l: "length r < length s" using r l1 l2 l3 l4 dA(1) by simp
    have "json_members m obj s = Some (ms, r)" if "length s - length r \<le> m" for m
    proof -
      from that r l1 l2 l3 l4 dA(1) have "Suc (length r2 - length r3) \<le> m" by simp
      from Suc_fuel [OF this] obtain m' where m: "m = Suc m'" "length r2 - length r3 \<le> m'" by blast
      from dA(2) [OF m(2)] show ?thesis using False r m(1) by (simp add: sq q k sc col se)
    qed
    with l show ?thesis by blast
  qed
qed

lemma enough_all:
  "enough json_value n \<and> enough json_elements n \<and> (\<forall>obj. enough (\<lambda>k. json_members k obj) n)"
proof (induction n)
  case 0
  show ?case by (simp add: enough_def)
next
  case (Suc n)
  then show ?case
    using enough_json_value_step [of n] enough_json_elements_step [of n]
      enough_json_members_step [of n]
    by blast
qed

lemma json_fuel_suffices:
  assumes "json_value n s = Some (v, r)"
  shows "json_value (Suc (length s)) s = Some (v, r)"
proof -
  have e: "enough json_value n" using enough_all by blast
  from enoughD(2) [OF e assms, of "Suc (length s)"] show ?thesis by simp
qed

lemma JSON_parse_complete:
  assumes "json_value n s = Some (v, r)" and "skip_ws r = []"
  shows "JSON_parse s = Some v"
  using json_fuel_suffices [OF assms(1)] assms(2) by (simp add: JSON_parse_def)

section \<open>Results\<close>

subsection \<open>C1: the status of a run that exceeds the time limit\<close>

text \<open>
  C1. The claim: when a test case's result carries the time-limit message and not every
  test passed, the status is \<^verbatim>\<open>Time Limit Exceeded\<close>. \<^verbatim>\<open>checkPerformanceLimits\<close> writes the
  message as \<^verbatim>\<open>Time limit exceeded: ...\<close> (small l), while \<^verbatim>\<open>submitSolution\<close> looks for the
  text \<^verbatim>\<open>Time Limit\<close> (capital L); \<open>limit_reason_never_says_Time_Limit\<close> shows that no message
  of \<^verbatim>\<open>checkPerformanceLimits\<close> contains it. Here the single test case of problem 1 takes
  2500 ms against a limit of 2000 ms: the result carries the message and the
  submission is stored with status \<^verbatim>\<open>Runtime Error\<close>.
\<close>

theorem time_limit_failure_is_recorded_as_runtime_error:
  "(\<lambda>(r, w). (map_option (map errorMessage \<circ> testCaseResults) (sr_executionResult r),
               map sub_status (submissions w)))
     (submitSolution
        (sample_env sample_tests \<lparr> ex_output = ''[0,1]'', ex_error = None, ex_elapsed = 2500 \<rparr>)
        empty_world ''u1'' 1 ''x'' ''javascript'')
   = (Some [Some ''Time limit exceeded: 2500.00ms (limit: 2000.00ms)''], [''Runtime Error''])"
  by code_simp

subsection \<open>C2: a problem without test cases\<close>

text \<open>
  C2. The claim: with no test cases the operation fails and no \<^verbatim>\<open>Accepted\<close> submission is
  stored. \<^verbatim>\<open>validateTestCases\<close> does return its \<^verbatim>\<open>No test cases found for this problem\<close> result,
  with zero tests passed out of zero; \<^verbatim>\<open>executeCode\<close> drops the feedback and
  \<^verbatim>\<open>submitSolution\<close> reads \<^verbatim>\<open>0 === 0\<close> as all tests passed. For problem 1 with an empty
  test-case table the submission succeeds, a submission and a solution are stored with
  status \<^verbatim>\<open>Accepted\<close>, and the executor is never called.
\<close>

theorem empty_test_list_is_recorded_as_accepted:
  "v_feedback (fst (validateTestCases
        (sample_env [] \<lparr> ex_output = ''[0,1]'', ex_error = None, ex_elapsed = 25 \<rparr>)
        [] 1 ''x'' ''javascript'')) = [''No test cases found for this problem'']
   \<and> (\<lambda>(r, w). (sr_success r, map sub_status (submissions w), map sol_status (solutions w),
                  executor_calls w))
        (submitSolution
          (sample_env [] \<lparr> ex_output = ''[0,1]'', ex_error = None, ex_elapsed = 25 \<rparr>)
          empty_world ''u1'' 1 ''x'' ''javascript'')
       = (True, [''Accepted''], [''Accepted''], [])"
  by code_simp

subsection \<open>C3: order-insensitive comparison of index pairs\<close>

text \<open>
  C3, as stated, fails: the outputs \<^verbatim>\<open>[-1,2]\<close> and \<^verbatim>\<open>[2,-1]\<close> are two-element numeric
  arrays that are equal as unordered pairs, yet the comparison of their normal forms does
  not pass. The pattern \<^verbatim>\<open>/\\[\\s*\\d+\\s*,\\s*\\d+\\s*\\]/\<close> of \<^verbatim>\<open>normalizeTwoSumOutput\<close> accepts
  digits only, so a signed element sends the text down the comma-splitting branch, where
  \<^verbatim>\<open>"[-1"\<close> and \<^verbatim>\<open>"2]"\<close> are kept as strings and never sorted.
\<close>

theorem two_sum_negative_pair_counterexample:
  "normalize_and_compare ''[-1,2]'' ''[2,-1]'' ''javascript'' ''two-sum''
     = Inr \<lparr> passed = False,
             diff = Some (''Arrays do not match:'' @ [CHR 0x0A]
               @ ''Expected: ['' @ [CHR 0x22] @ ''[-1'' @ [CHR 0x22] @ '','' @ [CHR 0x22] @ ''2]'' @ [CHR 0x22] @ '']''
               @ [CHR 0x0A]
               @ ''Actual: ['' @ [CHR 0x22] @ ''[2'' @ [CHR 0x22] @ '','' @ [CHR 0x22] @ ''-1]'' @ [CHR 0x22] @ '']'') \<rparr>"
  by code_simp

text \<open>
  C3, amended: for the two-sum problem type, when the expected output is the pair \<open>a\<close>,
  \<open>b\<close> and the actual output is the pair \<open>a\<close>, \<open>b\<close> or the pair \<open>b\<close>, \<open>a\<close>, each written as
  \<^verbatim>\<open>[a,b]\<close> with any number of spaces, tabs, line feeds and carriage returns around the
  two numbers, and \<open>a\<close> and \<open>b\<close> non-negative integers in decimal digits (no sign, no
  fraction, no leading zero) of at most \<open>2\<^sup>5\<^sup>3 - 1\<close>, the comparison of the normal forms
  passes with no diff. The witness is \<^verbatim>\<open>[0, 1]\<close> against \<^verbatim>\<open>[1,0]\<close>.
\<close>

theorem two_sum_order_insensitive:
  assumes "a \<le> 9007199254740991" and "b \<le> 9007199254740991"
    and "(c = a \<and> d = b) \<or> (c = b \<and> d = a)"
    and "list_all is_json_ws (u1 @ u2 @ u3 @ u4 @ v1 @ v2 @ v3 @ v4)"
  shows "normalize_and_compare (pair_text_ws u1 a u2 u3 b u4) (pair_text_ws v1 c v2 v3 d v4)
           language ''two-sum''
           = Inr \<lparr> passed = True, diff = None \<rparr>"
proof -
  have a: "a < 10 ^ 21" and b: "b < 10 ^ 21" using assms(1,2) by simp_all
  have u: "list_all is_json_ws u1" "list_all is_json_ws u2" "list_all is_json_ws u3"
    "list_all is_json_ws u4"
    and v: "list_all is_json_ws v1" "list_all is_json_ws v2" "list_all is_json_ws v3"
    "list_all is_json_ws v4"
    using assms(4) by simp_all
  have e: "normalizeOutput (pair_text_ws u1 a u2 u3 b u4) language ''two-sum''
             = Inr (pair_text (min a b) (max a b))"
    by (rule normalizeOutput_pair_text_ws [OF a b u])
  have "normalizeOutput (pair_text_ws v1 c v2 v3 d v4) language ''two-sum''
          = Inr (pair_text (min a b) (max a b))"
    using assms(3) normalizeOutput_pair_text_ws [OF a b v, of language]
      normalizeOutput_pair_text_ws [OF b a v, of language]
    by (auto simp: min.commute max.commute)
  with e show ?thesis
    by (simp add: normalize_and_compare_def compareOutputs_pair_text_refl)
qed

theorem two_sum_order_insensitive_witness:
  "(0::nat) \<le> 9007199254740991 \<and> (1::nat) \<le> 9007199254740991
   \<and> ((1::nat) = 0 \<and> (0::nat) = 1 \<or> (1::nat) = 1 \<and> (0::nat) = 0)
   \<and> list_all is_json_ws ([] @ [] @ '' '' @ [] @ [] @ [] @ [] @ [])
   \<and> normalize_and_compare ''[0, 1]'' ''[1,0]'' ''javascript'' ''two-sum''
       = Inr \<lparr> passed = True, diff = None \<rparr>"
proof -
  have h: "list_all is_json_ws ([] @ [] @ '' '' @ [] @ [] @ [] @ [] @ [])" by code_simp
  show ?thesis
    using two_sum_order_insensitive [of 0 1 1 0 "[]" "[]" "'' ''" "[]" "[]" "[]" "[]" "[]" "''javascript''", OF _ _ _ h] h
    unfolding pair_text_ws_examples by simp
qed

subsection \<open>C4: normalisation and comparison are total\<close>

text \<open>
  C4. For every output text, language and problem type \<^verbatim>\<open>normalizeOutput\<close> returns a string,
  and for every pair of texts \<^verbatim>\<open>compareOutputs\<close> returns a result whose \<open>diff\<close> is absent
  exactly when \<open>passed\<close> is true; neither raises. When the body of a \<^verbatim>\<open>try\<close> block raises
  (\<^verbatim>\<open>JSON.parse\<close>, or the \<^verbatim>\<open>throw\<close> of \<^verbatim>\<open>compareTwoSumOutputs\<close>), the result is the fallback:
  the generic normal form of the text, and for the comparison the equality of the two
  texts.
\<close>

theorem normalization_and_comparison_never_raise:
  "(\<exists>s. normalizeOutput output language problemType = Inr s)
   \<and> (\<exists>r. compareOutputs expected actual problemType = Inr r \<and> (passed r \<longleftrightarrow> diff r = None))
   \<and> (normalizeTwoSumOutput_body output = Inl e \<longrightarrow>
        normalizeOutput output language ''two-sum'' = Inr (normalizeGenericOutput output))
   \<and> (normalizeArrayOutput_body output = Inl e \<longrightarrow>
        normalizeOutput output language ''array'' = Inr (normalizeGenericOutput output))
   \<and> (compareTwoSumOutputs_body expected actual = Inl e \<longrightarrow>
        (\<exists>r. compareOutputs expected actual ''two-sum'' = Inr r \<and> (passed r \<longleftrightarrow> expected = actual)))"
proof (intro conjI impI)
  show "\<exists>s. normalizeOutput output language problemType = Inr s"
    by (auto simp: normalizeOutput_def normalizeTwoSumOutput_def normalizeArrayOutput_def try_catch_def
        split: sum.splits option.splits)
  have cp: "passed (compare_parsed x y) \<longleftrightarrow> diff (compare_parsed x y) = None" for x y
    by (simp add: compare_parsed_def Let_def split: json.splits list.splits jsnum.splits)
  show "\<exists>r. compareOutputs expected actual problemType = Inr r \<and> (passed r \<longleftrightarrow> diff r = None)"
    by (auto simp: compareOutputs_def compareTwoSumOutputs_def compareTwoSumOutputs_body_def
        try_catch_def cp split: sum.splits)
next
  assume "normalizeTwoSumOutput_body output = Inl e"
  then show "normalizeOutput output language ''two-sum'' = Inr (normalizeGenericOutput output)"
    by (auto simp: normalizeOutput_def normalizeTwoSumOutput_def try_catch_def
        normalizeTwoSumOutput_body_def normalizeGenericOutput_def toLowerCase_def remove_whitespace_def)
next
  assume "normalizeArrayOutput_body output = Inl e"
  then show "normalizeOutput output language ''array'' = Inr (normalizeGenericOutput output)"
    by (auto simp: normalizeOutput_def normalizeArrayOutput_def try_catch_def
        normalizeArrayOutput_body_def normalizeGenericOutput_def toLowerCase_def remove_whitespace_def
        startsWith_def)
next
  assume "compareTwoSumOutputs_body expected actual = Inl e"
  then show "\<exists>r. compareOutputs expected actual ''two-sum'' = Inr r \<and> (passed r \<longleftrightarrow> expected = actual)"
    by (simp add: compareOutputs_def compareTwoSumOutputs_def try_catch_def)
qed

theorem normalization_and_comparison_never_raise_witness:
  "normalizeTwoSumOutput_body ''[01,2]'' = Inl (SyntaxError ''Unexpected token in JSON'')
   \<and> normalizeOutput ''[01,2]'' ''javascript'' ''two-sum'' = Inr ''[01,2]''
   \<and> normalizeArrayOutput_body ''[01,2]'' = Inl (SyntaxError ''Unexpected token in JSON'')
   \<and> normalizeOutput ''[01,2]'' ''javascript'' ''array'' = Inr ''[01,2]''
   \<and> compareTwoSumOutputs_body ''abc'' ''abd'' = Inl (SyntaxError ''Unexpected token in JSON'')
   \<and> (\<exists>r. compareOutputs ''abc'' ''abd'' ''two-sum'' = Inr r \<and> \<not> passed r)"
proof -
  have h: "normalizeTwoSumOutput_body ''[01,2]'' = Inl (SyntaxError ''Unexpected token in JSON'')"
    "normalizeArrayOutput_body ''[01,2]'' = Inl (SyntaxError ''Unexpected token in JSON'')"
    "compareTwoSumOutputs_body ''abc'' ''abd'' = Inl (SyntaxError ''Unexpected token in JSON'')"
    "normalizeGenericOutput ''[01,2]'' = ''[01,2]''"
    by code_simp+
  from normalization_and_comparison_never_raise
         [of "''[01,2]''" "''javascript''" "''two-sum''" "''abc''" "''abd''"
             "SyntaxError ''Unexpected token in JSON''"] h
  show ?thesis by simp
qed

subsection \<open>C5: a compilation failure runs no test\<close>

text \<open>
  C5. When \<^verbatim>\<open>compileCode\<close> rejects the source, the result of \<^verbatim>\<open>executeCode\<close> has the
  compilation-error flag, \<open>totalTestCases = 0\<close>, \<open>testCasesPassed = 0\<close> and no test-case
  results, and the list of executor calls is the one the run started with: the executor
  is not called. The witness is a Java source with no \<^verbatim>\<open>main\<close> method.
\<close>

theorem compilation_failure_runs_no_test:
  assumes "\<not> c_success (compileCode code language)"
  shows "\<exists>r. executeCode env calls code language problemId = (r, calls)
           \<and> compilationError r \<and> \<not> success r
           \<and> totalTestCases r = 0 \<and> testCasesPassed r = 0 \<and> testCaseResults r = []"
  using assms by (simp add: executeCode_def validateTestCases_def no_tests_def Let_def)

theorem compilation_failure_runs_no_test_witness:
  "\<not> c_success (compileCode ''class A {}'' ''java'')
   \<and> (\<exists>r. executeCode
              (sample_env sample_tests \<lparr> ex_output = ''[0,1]'', ex_error = None, ex_elapsed = 25 \<rparr>)
              [] ''class A {}'' ''java'' 1 = (r, [])
          \<and> compilationError r \<and> \<not> success r
          \<and> totalTestCases r = 0 \<and> testCasesPassed r = 0 \<and> testCaseResults r = [])"
proof -
  have h: "\<not> c_success (compileCode ''class A {}'' ''java'')" by code_simp
  show ?thesis
    using h compilation_failure_runs_no_test [OF h] by simp
qed

subsection \<open>C6: idempotence of normalisation\<close>

text \<open>
  C6, as stated, fails for three of the four shapes. String shape: one layer of quotes
  is stripped at each pass, so \<^verbatim>\<open>""a""\<close> becomes \<^verbatim>\<open>"a"\<close> and then \<^verbatim>\<open>a\<close>. Two-sum shape:
  \<^verbatim>\<open>1,2,3\<close> becomes \<^verbatim>\<open>[1,2,3]\<close>, which the second pass splits at the commas again. Array
  shape: \<^verbatim>\<open>[TRUE,1.0]\<close> is not JSON and is lower-cased to \<^verbatim>\<open>[true,1.0]\<close>, which is JSON and
  is printed back as \<^verbatim>\<open>[true,1]\<close>.
\<close>

theorem normalizeOutput_not_idempotent_counterexample:
  "normalizeOutput [CHR 0x22, CHR 0x22, CHR ''a'', CHR 0x22, CHR 0x22] ''javascript'' ''string''
     = Inr [CHR 0x22, CHR ''a'', CHR 0x22]
   \<and> normalizeOutput [CHR 0x22, CHR ''a'', CHR 0x22] ''javascript'' ''string'' = Inr ''a''
   \<and> normalizeOutput ''1,2,3'' ''javascript'' ''two-sum'' = Inr ''[1,2,3]''
   \<and> normalizeOutput ''[1,2,3]'' ''javascript'' ''two-sum''
       = Inr (''['' @ [CHR 0x22] @ ''[1'' @ [CHR 0x22] @ '',2,'' @ [CHR 0x22] @ ''3]'' @ [CHR 0x22] @ '']'')
   \<and> normalizeOutput ''[TRUE,1.0]'' ''javascript'' ''array'' = Inr ''[true,1.0]''
   \<and> normalizeOutput ''[true,1.0]'' ''javascript'' ''array'' = Inr ''[true,1]''"
  by code_simp

text \<open>
  C6, amended: for the generic shape, that is for every problem type other than
  \<^verbatim>\<open>two-sum\<close>, \<^verbatim>\<open>array\<close> and \<^verbatim>\<open>string\<close>, and for every text and language, normalising the
  normal form gives the normal form again.
\<close>

theorem normalizeOutput_generic_idempotent:
  assumes "problemType \<noteq> ''two-sum''" and "problemType \<noteq> ''array''" and "problemType \<noteq> ''string''"
  shows "\<exists>y. normalizeOutput x language problemType = Inr y
           \<and> normalizeOutput y language problemType = Inr y"
  using assms by (simp add: normalizeOutput_def try_catch_def normalizeGenericOutput_idem)

theorem normalizeOutput_generic_idempotent_witness:
  "''generic'' \<noteq> ''two-sum'' \<and> ''generic'' \<noteq> ''array'' \<and> ''generic'' \<noteq> ''string''
   \<and> normalizeOutput '' Hello World '' ''javascript'' ''generic'' = Inr ''helloworld''
   \<and> normalizeOutput ''helloworld'' ''javascript'' ''generic'' = Inr ''helloworld''"
proof -
  have n: "normalizeOutput '' Hello World '' ''javascript'' ''generic'' = Inr ''helloworld''"
    by code_simp
  from normalizeOutput_generic_idempotent [of "''generic''" "'' Hello World ''" "''javascript''"] n
  show ?thesis by simp
qed

subsection \<open>C7: the diff for the array shape\<close>

text \<open>
  C7, as stated, fails: the judge calls \<^verbatim>\<open>compareOutputs\<close> of validation-utils, which for
  the array shape compares the two texts character by character. For \<^verbatim>\<open>[1,2,3]\<close> against
  \<^verbatim>\<open>[1,2]\<close> its diff gives the lengths 7 and 5 of the texts and the first differing
  character, and names no missing or extra element. The diff the claim describes (3
  elements against 2, element 3 missing) is the one of \<^verbatim>\<open>compareOutputs\<close> in
  output-validator.ts, which the judge does not call.
\<close>

theorem pipeline_comparator_reports_no_elements_counterexample:
  "compareOutputs ''[1,2,3]'' ''[1,2]'' ''array''
       = Inr \<lparr> passed = False,
               diff = Some (''Differences found:'' @ [CHR 0x0A]
                 @ ''- Expected: [1,2,3]'' @ [CHR 0x0A]
                 @ ''- Actual: [1,2]'' @ [CHR 0x0A]
                 @ ''- Length mismatch: expected 7, got 5'' @ [CHR 0x0A]
                 @ ''- First difference at position 4: expected '' @ [CHR 0x27] @ '','' @ [CHR 0x27]
                 @ '', got '' @ [CHR 0x27] @ '']'' @ [CHR 0x27] @ [CHR 0x0A]) \<rparr>
   \<and> ov_compareOutputs ''[1,2,3]'' ''[1,2]''
       = \<lparr> passed = False,
           diff = Some (''Differences found:'' @ [CHR 0x0A]
             @ ''- Array length mismatch: expected 3, got 2'' @ [CHR 0x0A]
             @ ''- Missing elements: 3'' @ [CHR 0x0A]) \<rparr>"
  by code_simp

text \<open>
  C7, amended: for the array shape, when the expected and the actual text differ, the
  comparator of the judge does not pass and its diff is made of the two texts, a line
  with the two text lengths when they differ, and a line with the position and the two
  characters of the first difference, the position being the length of the longest
  common prefix (no such line when one text is a prefix of the other).
\<close>

theorem array_shape_diff_is_textual:
  assumes "expected \<noteq> actual"
  shows "compareOutputs expected actual ''array''
           = Inr \<lparr> passed = False,
                   diff = Some (''Differences found:'' @ [CHR 0x0A]
                     @ ''- Expected: '' @ expected @ [CHR 0x0A]
                     @ ''- Actual: '' @ actual @ [CHR 0x0A]
                     @ (if length expected \<noteq> length actual
                        then ''- Length mismatch: expected '' @ dec (length expected) @ '', got ''
                               @ dec (length actual) @ [CHR 0x0A]
                        else [])
                     @ (let i = length (longest_common_prefix expected actual)
                        in if i < length expected \<and> i < length actual
                           then ''- First difference at position '' @ dec i @ '': expected ''
                                  @ [CHR 0x27, expected ! i, CHR 0x27] @ '', got ''
                                  @ [CHR 0x27, actual ! i, CHR 0x27] @ [CHR 0x0A]
                           else [])) \<rparr>"
  using assms
  by (simp add: compareOutputs_def string_diff_def first_difference_lcp difference_line_def Let_def)

theorem array_shape_diff_is_textual_witness:
  "''[1,2]'' \<noteq> ''[1,3]''
   \<and> compareOutputs ''[1,2]'' ''[1,3]'' ''array''
       = Inr \<lparr> passed = False,
               diff = Some (''Differences found:'' @ [CHR 0x0A]
                 @ ''- Expected: [1,2]'' @ [CHR 0x0A]
                 @ ''- Actual: [1,3]'' @ [CHR 0x0A]
                 @ ''- First difference at position 3: expected '' @ [CHR 0x27] @ ''2'' @ [CHR 0x27]
                 @ '', got '' @ [CHR 0x27] @ ''3'' @ [CHR 0x27] @ [CHR 0x0A]) \<rparr>"
proof -
  have h: "''[1,2]'' \<noteq> ''[1,3]''" by simp
  show ?thesis unfolding array_shape_diff_is_textual [OF h] by code_simp
qed

subsection \<open>C8: the plagiarism thresholds\<close>



subsection \<open>C9: user statistics counters\<close>

text \<open>
  C9. The claim: on an update of an existing row, each status-specific counter goes up
  by one only for the matching status. The update branch of the source adds one to every
  status counter whatever the status is: for a user whose row holds zeros, an
  \<open>Accepted\<close> submission leaves \<open>wrongSubmissions\<close>, \<open>compilationErrors\<close>, \<open>runtimeErrors\<close> and
  \<open>timeLimitExceeded\<close> at 1. (The create branch counts by status.)
\<close>

theorem updateUserStatistics_existing_row_counts_every_status:
  "map_option (\<lambda>s. (totalSubmissions s, acceptedSubmissions s, wrongSubmissions s,
                      compilationErrors s, runtimeErrors s, timeLimitExceeded s))
     (updateUserStatistics [''u1'' \<mapsto> zero_statistics] 7 ''u1'' ''Accepted'' ''easy'' 100 ''u1'')
   = Some (1, 1, 1, 1, 1, 1)"
  by (simp add: updateUserStatistics_def zero_statistics_def)

subsection \<open>C10: the optimality flag of a stored solution\<close>

text \<open>
  C10. Whenever \<^verbatim>\<open>submitSolution\<close> stores a submission with status \<^verbatim>\<open>Accepted\<close>, it appends
  one solution record, and that record has \<open>isOptimal = True\<close>: \<^verbatim>\<open>executeCode\<close> does not
  pass on the \<open>isOptimal\<close> that \<^verbatim>\<open>validateTestCases\<close> computes. In the witness the judge
  computes \<open>isOptimal = False\<close> (the classifier finds no hash map in the source \<^verbatim>\<open>x\<close>) and
  the stored solution is marked optimal.
\<close>

theorem accepted_solution_is_marked_optimal:
  assumes "submitSolution env w userId problemId code language = (r, w')"
    and "sr_submission r = Some sub" and "sub_status sub = ''Accepted''"
  shows "\<exists>sol. solutions w' = solutions w @ [sol] \<and> isOptimal sol \<and> sol_status sol = ''Accepted''
           \<and> sol_userId sol = userId \<and> sol_problemId sol = problemId \<and> sol_code sol = code"
proof (cases "findProblem env problemId")
  case None
  with assms(1,2) show ?thesis by (auto simp: submitSolution_def)
next
  case (Some prob)
  obtain er calls' where ec: "executeCode env (executor_calls w) code language problemId = (er, calls')"
    by (cases "executeCode env (executor_calls w) code language problemId")
  show ?thesis
  proof (cases "compilationError er")
    case True
    with assms(1,2) Some ec show ?thesis by (auto simp: submitSolution_def)
  next
    case False
    note nc = this
    show ?thesis
    proof (cases "potentialPlagiarism er = Some True
                    \<and> (case plagiarismScore er of
                          None \<Rightarrow> False | Some s \<Rightarrow> s > round_to_double (8 / 10))")
      case True
      with assms(1,2) Some ec nc show ?thesis by (auto simp: submitSolution_def)
    next
      case False
      with assms Some ec nc show ?thesis
        by (auto simp: submitSolution_def Let_def)
    qed
  qed
qed

theorem accepted_solution_is_marked_optimal_witness:
  "v_isOptimal (fst (validateTestCases
       (sample_env sample_tests \<lparr> ex_output = ''[1,0]'', ex_error = None, ex_elapsed = 25 \<rparr>)
       [] 1 ''x'' ''javascript'')) = False
   \<and> (\<exists>sub. sr_submission (fst (submitSolution
          (sample_env sample_tests \<lparr> ex_output = ''[1,0]'', ex_error = None, ex_elapsed = 25 \<rparr>)
          empty_world ''u1'' 1 ''x'' ''javascript'')) = Some sub
        \<and> sub_status sub = ''Accepted'')
   \<and> (\<exists>sol. solutions (snd (submitSolution
          (sample_env sample_tests \<lparr> ex_output = ''[1,0]'', ex_error = None, ex_elapsed = 25 \<rparr>)
          empty_world ''u1'' 1 ''x'' ''javascript''))
          = solutions empty_world @ [sol] \<and> isOptimal sol \<and> sol_status sol = ''Accepted''
           \<and> sol_userId sol = ''u1'' \<and> sol_problemId sol = 1 \<and> sol_code sol = ''x'')"
proof -
  let ?E = "sample_env sample_tests \<lparr> ex_output = ''[1,0]'', ex_error = None, ex_elapsed = 25 \<rparr>"
  let ?S = "submitSolution ?E empty_world ''u1'' 1 ''x'' ''javascript''"
  have v: "v_isOptimal (fst (validateTestCases ?E [] 1 ''x'' ''javascript'')) = False"
    by code_simp
  have s: "sr_submission (fst ?S)
             = Some \<lparr> sub_userId = ''u1'', sub_problemId = 1, sub_code = ''x'',
                      sub_language = ''javascript'', sub_status = ''Accepted'',
                      sub_executionTime = 3, sub_memoryUsed = 10 \<rparr>"
    by code_simp
  have p: "?S = (fst ?S, snd ?S)" by simp
  from accepted_solution_is_marked_optimal [OF p s] v s show ?thesis by simp
qed


end
